theory Spec2Isabelle
  imports Main "HOL-Library.Word"
begin

section \<open>Common vocabulary\<close>

text \<open>
  A Go \<open>error\<close> value is modelled by its message; \<open>nil\<close> is \<open>None\<close> of
  \<open>error option\<close>, and a function returning \<open>(T, error)\<close> returns \<open>error + T\<close>.
  A \<open>panic\<close> is an outcome of its own. Byte slices are lists of 8-bit words.
\<close>

datatype error = Errorf string | Panic string

fun message :: "error \<Rightarrow> string" where
  "message (Errorf m) = m"
| "message (Panic m) = m"

type_synonym bytes = "8 word list"

text \<open>\<open>%d\<close> of \<open>fmt\<close> (and \<open>fmt.Sprint\<close> of an integer): the decimal numeral.\<close>

definition digit_char :: "nat \<Rightarrow> char" where
  "digit_char d = ''0123456789'' ! d"

fun fmt_nat :: "nat \<Rightarrow> string" where
  "fmt_nat n = (if n < 10 then [digit_char n] else fmt_nat (n div 10) @ [digit_char (n mod 10)])"

declare fmt_nat.simps [simp del]

definition fmt_d :: "int \<Rightarrow> string" where
  "fmt_d i = (if i < 0 then CHR ''-'' # fmt_nat (nat (- i)) else fmt_nat (nat i))"

text \<open>\<open>strings.Split(s, sep)\<close> for a one-character separator: never the empty list.\<close>

primrec strings_Split :: "string \<Rightarrow> char \<Rightarrow> string list" where
  "strings_Split [] sep = [[]]"
| "strings_Split (c # cs) sep =
     (if c = sep then [] # strings_Split cs sep
      else (case strings_Split cs sep of
              [] \<Rightarrow> [[c]]
            | w # ws \<Rightarrow> (c # w) # ws))"

text \<open>
  What a command does to the world outside its process, in the order of the calls: the
  file-system calls with their permission modes (\<open>os.FileMode\<close> as a number; \<open>0755\<close>
  is \<open>493\<close>, \<open>0700\<close> is \<open>448\<close>, \<open>0644\<close> is \<open>420\<close>, \<open>0600\<close> is \<open>384\<close>), the
  calls into the \<open>signer\<close> package, what is printed or logged (a logged value as
  its text), and the calls into the raft library.
\<close>

datatype effect =
    Op_MkdirAll string nat
  | Op_WriteFile string bytes nat
  | Op_ReadFile string
  | Op_LoadOrCreateSignState string
  | Op_WriteConfigFile
  | Op_NetworkDKG "8 word" "8 word"
  | Op_Println "string list"
  | Op_Stdout string
  | Op_LogError string "(string \<times> string) list"
  | Op_LogInfo string "(string \<times> string) list"
  | Op_LeadershipTransferToServer string string
  | Op_LeadershipTransfer

definition perm_0755 :: nat where "perm_0755 = 7 * 64 + 5 * 8 + 5"
definition perm_0700 :: nat where "perm_0700 = 7 * 64"
definition perm_0644 :: nat where "perm_0644 = 6 * 64 + 4 * 8 + 4"
definition perm_0600 :: nat where "perm_0600 = 6 * 64"

text \<open>\<open>os.MkdirAll\<close> is used by both command files: its error for a path and a mode.\<close>

record os_env =
  os_MkdirAll :: "string \<Rightarrow> nat \<Rightarrow> error option"

section \<open>cmd/horcrux/cmd/config.go\<close>

subsection \<open>Configuration structs\<close>

record ChainNode =
  PrivValAddr :: string

record CosignerPeer =
  ShareID :: int
  P2PAddr :: string

record CosignerConfig =
  Threshold :: int
  P2PListen :: string
  Peers :: "CosignerPeer list"

text \<open>\<open>CosignerConfig\<close> of \<open>Config\<close> is a pointer: \<open>None\<close> is \<open>nil\<close>.\<close>

record Config =
  HomeDir :: string
  ChainID :: string
  CosignerConfig :: "CosignerConfig option"
  ChainNodes :: "ChainNode list"

text \<open>
  The libraries and the \<open>signer\<close> package that \<open>config.go\<close> calls, as parameters:
  \<open>url.Parse\<close> (only its error is ever used), \<open>strconv.ParseInt(s, 10, 64)\<close>,
  \<open>homedir.Dir()\<close>, \<open>path.Join\<close>, \<open>ioutil.WriteFile\<close>, \<open>yaml.Marshal\<close> and
  \<open>signer.LoadOrCreateSignState\<close> (only its error is used).
\<close>

record cfg_env = os_env +
  url_Parse :: "string \<Rightarrow> error option"
  strconv_ParseInt :: "string \<Rightarrow> error + int"
  homedir_Dir :: string
  path_Join :: "string list \<Rightarrow> string"
  ioutil_WriteFile :: "string \<Rightarrow> bytes \<Rightarrow> nat \<Rightarrow> error option"
  yaml_Marshal :: "Config \<Rightarrow> error + bytes"
  signer_LoadOrCreateSignState :: "string \<Rightarrow> error option"

subsection \<open>Validation\<close>

text \<open>
  \<open>validateChainNodes\<close> has the named result \<open>err\<close>, initially \<open>nil\<close>, that every
  iteration of the loop overwrites with the error of \<open>url.Parse\<close> (the parameter
  \<open>parse\<close>).
\<close>

fun validateChainNodes_loop ::
  "(string \<Rightarrow> error option) \<Rightarrow> error option \<Rightarrow> ChainNode list \<Rightarrow> error option" where
  "validateChainNodes_loop parse err [] = err"
| "validateChainNodes_loop parse err (n # ns) =
     validateChainNodes_loop parse (parse (PrivValAddr n)) ns"

definition validateChainNodes :: "(string \<Rightarrow> error option) \<Rightarrow> ChainNode list \<Rightarrow> error option" where
  "validateChainNodes parse nodes = validateChainNodes_loop parse None nodes"

definition validateSingleSignerConfig :: "(string \<Rightarrow> error option) \<Rightarrow> Config \<Rightarrow> error option" where
  "validateSingleSignerConfig parse cfg =
     (if ChainID cfg = [] then Some (Errorf ''chain-id cannot be empty'')
      else if length (ChainNodes cfg) = 0
        then Some (Errorf ''need to have a node configured to sign for'')
      else (case validateChainNodes parse (ChainNodes cfg) of
              Some err \<Rightarrow> Some err
            | None \<Rightarrow> None))"

text \<open>The body is a TODO in the source: it accepts every list of peers.\<close>

definition validateCosignerPeers :: "CosignerPeer list \<Rightarrow> error option" where
  "validateCosignerPeers peers = None"

text \<open>
  \<open>Threshold\<close> and \<open>len(Peers)+1\<close> are Go \<open>int\<close>s; they are only compared, so
  mathematical integers model them exactly.
\<close>

definition validateCosignerConfig :: "(string \<Rightarrow> error option) \<Rightarrow> Config \<Rightarrow> error option" where
  "validateCosignerConfig parse cfg =
     (if ChainID cfg = [] then Some (Errorf ''chain-id cannot be empty'')
      else (case CosignerConfig cfg of
        None \<Rightarrow> Some (Errorf ''cosigner config can't be empty'')
      | Some cc \<Rightarrow>
          (if int (length (Peers cc)) + 1 < Threshold cc
            then Some (Errorf (''number of peers + 1 ('' @ fmt_d (int (length (Peers cc)) + 1)
                   @ '') must be greater than threshold ('' @ fmt_d (Threshold cc) @ '')''))
           else if Threshold cc < 2 then Some (Errorf ''threshold must be 2 or greater'')
           else (case parse (P2PListen cc) of
              Some err \<Rightarrow> Some (Errorf ''failed to parse p2p listen address'')
            | None \<Rightarrow>
               (case validateCosignerPeers (Peers cc) of
                  Some err \<Rightarrow> Some err
                | None \<Rightarrow>
                   (case validateChainNodes parse (ChainNodes cfg) of
                      Some err \<Rightarrow> Some err
                    | None \<Rightarrow> None))))))"

subsection \<open>Parsing the arguments\<close>

fun parseChainNodes_loop :: "ChainNode list \<Rightarrow> string list \<Rightarrow> ChainNode list" where
  "parseChainNodes_loop out [] = out"
| "parseChainNodes_loop out (n # ns) = parseChainNodes_loop (out @ [\<lparr>PrivValAddr = n\<rparr>]) ns"

definition parseChainNodes :: "string \<Rightarrow> ChainNode list" where
  "parseChainNodes nodes = parseChainNodes_loop [] (strings_Split nodes CHR '','')"

definition chainNodesFromArg ::
  "(string \<Rightarrow> error option) \<Rightarrow> string \<Rightarrow> ChainNode list \<times> error option" where
  "chainNodesFromArg parse arg = (let cn = parseChainNodes arg in (cn, validateChainNodes parse cn))"

text \<open>
  \<open>peersFromFlag\<close>: the loop over the comma-separated peers, with the slice \<open>out\<close>
  built so far. \<open>int(shareid)\<close> converts \<open>int64\<close> to \<open>int\<close>, the same 64 bits.
\<close>

fun peersFromFlag_loop ::
  "'a cfg_env_scheme \<Rightarrow> CosignerPeer list \<Rightarrow> string list \<Rightarrow> (error + CosignerPeer list) \<times> effect list" where
  "peersFromFlag_loop env out [] = (Inr out, [])"
| "peersFromFlag_loop env out (p # rest) =
     (let ps = strings_Split p CHR ''|'' in
      if length ps \<noteq> 2
        then (Inl (Errorf (''invalid peer string '' @ p)), [Op_Println ps])
      else (case strconv_ParseInt env (ps ! 1) of
          Inl err \<Rightarrow> (Inl err, [])
        | Inr shareid \<Rightarrow>
           (case url_Parse env (ps ! 0) of
              Some err \<Rightarrow> (Inl err, [])
            | None \<Rightarrow> peersFromFlag_loop env (out @ [\<lparr>ShareID = shareid, P2PAddr = ps ! 0\<rparr>]) rest)))"

definition peersFromFlag ::
  "'a cfg_env_scheme \<Rightarrow> string \<Rightarrow> (error + CosignerPeer list) \<times> effect list" where
  "peersFromFlag env peers = peersFromFlag_loop env [] (strings_Split peers CHR '','')"

subsection \<open>The command \<open>config init\<close>\<close>

text \<open>
  What the user gives \<open>config init\<close>: the positional arguments, the three flags, and the
  global \<open>cfgFile\<close> of the root command.
\<close>

record init_input =
  args :: "string list"
  flag_cosigner :: bool
  flag_peers :: string
  flag_threshold :: int
  cfgFile :: string

text \<open>\<open>MustMarshalYaml\<close> panics when \<open>yaml.Marshal\<close> fails.\<close>

definition MustMarshalYaml :: "'a cfg_env_scheme \<Rightarrow> Config \<Rightarrow> error + bytes" where
  "MustMarshalYaml env c =
     (case yaml_Marshal env c of
        Inl err \<Rightarrow> Inl (Panic (message err))
      | Inr out \<Rightarrow> Inr out)"

definition writeConfigFile :: "'a cfg_env_scheme \<Rightarrow> string \<Rightarrow> Config \<Rightarrow> error option \<times> effect list" where
  "writeConfigFile env path cfg =
     (case MustMarshalYaml env cfg of
        Inl p \<Rightarrow> (Some p, [])
      | Inr out \<Rightarrow> (ioutil_WriteFile env path out perm_0644, [Op_WriteFile path out perm_0644]))"

text \<open>The branch on the \<open>cosigner\<close> flag that builds and validates the configuration.\<close>

definition initCmd_config ::
  "'a cfg_env_scheme \<Rightarrow> init_input \<Rightarrow> string \<Rightarrow> ChainNode list \<Rightarrow> string
     \<Rightarrow> (error + Config) \<times> effect list" where
  "initCmd_config env inp cid cn homeDir =
     (if flag_cosigner inp then
        (case peersFromFlag env (flag_peers inp) of
           (Inl err, tr) \<Rightarrow> (Inl err, tr)
         | (Inr peers, tr) \<Rightarrow>
            (let cfg = \<lparr>HomeDir = homeDir, ChainID = cid,
                        CosignerConfig = Some \<lparr>Threshold = flag_threshold inp,
                                               P2PListen = ''tcp://0.0.0.0:2222'',
                                               Peers = peers\<rparr>,
                        ChainNodes = cn\<rparr>
             in (case validateCosignerConfig (url_Parse env) cfg of
                   Some err \<Rightarrow> (Inl err, tr)
                 | None \<Rightarrow> (Inr cfg, tr))))
      else if length cn = 0 then (Inl (Errorf ''must input at least one node''), [])
      else
        (let cfg = \<lparr>HomeDir = homeDir, ChainID = cid, CosignerConfig = None, ChainNodes = cn\<rparr>
         in (case validateSingleSignerConfig (url_Parse env) cfg of
               Some err \<Rightarrow> (Inl err, [])
             | None \<Rightarrow> (Inr cfg, []))))"

text \<open>The file-system part: the state directory, the config file, the sign-state files.\<close>

definition initCmd_files ::
  "'a cfg_env_scheme \<Rightarrow> bool \<Rightarrow> string \<Rightarrow> string \<Rightarrow> Config \<Rightarrow> error option \<times> effect list" where
  "initCmd_files env cs homeDir cid cfg =
     (let stateDir = path_Join env [homeDir, ''state''];
          mk = [Op_MkdirAll stateDir perm_0755]
      in case os_MkdirAll env stateDir perm_0755 of
        Some err \<Rightarrow> (Some err, mk)
      | None \<Rightarrow>
         (case writeConfigFile env (path_Join env [homeDir, ''config.yaml'']) cfg of
            (Some err, tr) \<Rightarrow> (Some err, mk @ tr)
          | (None, tr) \<Rightarrow>
             (let pv = path_Join env [homeDir, ''state'', cid @ ''_priv_validator_state.json'']
              in case signer_LoadOrCreateSignState env pv of
                 Some err \<Rightarrow> (Some err, mk @ tr @ [Op_LoadOrCreateSignState pv])
               | None \<Rightarrow>
                  (if cs then
                     (let sh = path_Join env [homeDir, ''state'', cid @ ''_share_sign_state.json'']
                      in (signer_LoadOrCreateSignState env sh,
                          mk @ tr @ [Op_LoadOrCreateSignState pv, Op_LoadOrCreateSignState sh]))
                   else (None, mk @ tr @ [Op_LoadOrCreateSignState pv])))))"

text \<open>
  \<open>RunE\<close> of \<open>initCmd\<close>. The home directory is \<open>cfgFile\<close> when it is set, and
  \<open>.horcrux\<close> under the user's home otherwise. \<open>cobra.RangeArgs(1, 2)\<close> rejects
  any other number of arguments before \<open>RunE\<close> runs. The result is the error
  returned (\<open>None\<close> for \<open>nil\<close>) and the effects in the order they happened.
\<close>

definition initCmd_homeDir :: "'a cfg_env_scheme \<Rightarrow> init_input \<Rightarrow> string" where
  "initCmd_homeDir env inp =
     (if cfgFile inp \<noteq> [] then cfgFile inp else path_Join env [homedir_Dir env, ''.horcrux''])"

definition initCmd :: "'a cfg_env_scheme \<Rightarrow> init_input \<Rightarrow> error option \<times> effect list" where
  "initCmd env inp =
     (if length (args inp) < 1 \<or> 2 < length (args inp)
        then (Some (Errorf (''accepts between 1 and 2 arg(s), received ''
                @ fmt_d (int (length (args inp))))), [])
      else
       (let cid = args inp ! 0 in
        case (if length (args inp) = 2 then chainNodesFromArg (url_Parse env) (args inp ! 1)
              else ([], None)) of
          (cn, Some err) \<Rightarrow> (Some err, [])
        | (cn, None) \<Rightarrow>
           (let homeDir = initCmd_homeDir env inp
            in case initCmd_config env inp cid cn homeDir of
                 (Inl err, tr) \<Rightarrow> (Some err, tr)
               | (Inr cfg, tr) \<Rightarrow>
                  (case initCmd_files env (flag_cosigner inp) homeDir cid cfg of
                     (res, tr') \<Rightarrow> (res, tr @ tr')))))"

section \<open>The \<open>dkg\<close> commands\<close>

subsection \<open>The runtime configuration\<close>

text \<open>
  Modelled from the spec: the declarations of the global \<open>config\<close> are not among the
  sources. A cosigner entry has the fields the configuration contract enumerates
  (\<open>shardID: uint8\<close>, \<open>p2pAddr\<close>, \<open>raftAddr\<close>, \<open>dkgID: string\<close>). \<open>Threshold\<close> is
  compared with the \<open>uint8\<close> value \<open>shards\<close> without a conversion, which Go accepts
  only for a \<open>uint8\<close>.
\<close>

record ThresholdCosigner =
  ShardID :: "8 word"
  c_P2PAddr :: string
  c_RaftAddr :: string
  DKGID :: string

record ThresholdModeConfig =
  tm_Threshold :: "8 word"
  Cosigners :: "ThresholdCosigner list"

record RuntimeConfig =
  rc_HomeDir :: string
  rc_ThresholdModeConfig :: ThresholdModeConfig

text \<open>
  The libraries the two commands call, as parameters: key generation and the peer ID of
  libp2p (\<open>'k\<close> is the private key, the ID is taken as its \<open>String()\<close>),
  \<open>filepath.Join\<close>, the file-system calls, \<open>config.WriteConfigFile\<close>,
  \<open>signer.NetworkDKG\<close> (\<open>'s\<close> is the shard it returns) and \<open>json.Marshal\<close>.
\<close>

record ('k, 's) dkg_env = os_env +
  crypto_GenerateEd25519Key :: "error + 'k"
  privKey_Raw :: "'k \<Rightarrow> error + bytes"
  peer_IDFromPrivateKey :: "'k \<Rightarrow> error + string"
  filepath_Join :: "string list \<Rightarrow> string"
  os_WriteFile :: "string \<Rightarrow> bytes \<Rightarrow> nat \<Rightarrow> error option"
  os_ReadFile :: "string \<Rightarrow> error + bytes"
  config_WriteConfigFile :: "RuntimeConfig \<Rightarrow> error option"
  crypto_UnmarshalEd25519PrivateKey :: "bytes \<Rightarrow> error + 'k"
  signer_NetworkDKG :: "ThresholdCosigner list \<Rightarrow> 8 word \<Rightarrow> 'k \<Rightarrow> 8 word \<Rightarrow> error + 's"
  json_Marshal :: "'s \<Rightarrow> error + bytes"

subsection \<open>The command \<open>dkg init\<close>\<close>

text \<open>
  The loop over the cosigners: iteration \<open>i\<close> reads element \<open>i\<close> and writes only
  element \<open>i\<close>.
\<close>

fun dkgInit_loop :: "8 word \<Rightarrow> string \<Rightarrow> ThresholdCosigner list \<Rightarrow> ThresholdCosigner list" where
  "dkgInit_loop id' p2pID [] = []"
| "dkgInit_loop id' p2pID (cosigner # rest) =
     (if ShardID cosigner = id' then cosigner\<lparr>DKGID := p2pID\<rparr>
      else if DKGID cosigner = [] then cosigner\<lparr>DKGID := ''REPLACE ME''\<rparr>
      else cosigner) # dkgInit_loop id' p2pID rest"

text \<open>
  \<open>RunE\<close> of \<open>dkgInitCmd\<close>: the error returned, the global configuration as the
  command leaves it, and the effects.
\<close>

definition dkgInitCmd ::
  "('k, 's, 'a) dkg_env_scheme \<Rightarrow> RuntimeConfig \<Rightarrow> 8 word
     \<Rightarrow> error option \<times> RuntimeConfig \<times> effect list" where
  "dkgInitCmd env config id' =
     (case crypto_GenerateEd25519Key env of
        Inl err \<Rightarrow> (Some err, config, [])
      | Inr privKey \<Rightarrow>
        (case privKey_Raw env privKey of
           Inl err \<Rightarrow> (Some err, config, [])
         | Inr rawKey \<Rightarrow>
           (let filename = filepath_Join env [rc_HomeDir config, ''libp2p.key''];
                wr = [Op_WriteFile filename rawKey perm_0600]
            in case os_WriteFile env filename rawKey perm_0600 of
              Some err \<Rightarrow> (Some err, config, wr)
            | None \<Rightarrow>
              (case peer_IDFromPrivateKey env privKey of
                 Inl err \<Rightarrow> (Some err, config, wr)
               | Inr p2pID \<Rightarrow>
                 (let tm = rc_ThresholdModeConfig config;
                      config' = config\<lparr>rc_ThresholdModeConfig :=
                                   tm\<lparr>Cosigners := dkgInit_loop id' p2pID (Cosigners tm)\<rparr>\<rparr>
                  in case config_WriteConfigFile env config' of
                    Some err \<Rightarrow> (Some err, config', wr @ [Op_WriteConfigFile])
                  | None \<Rightarrow>
                     (None, config',
                      wr @ [Op_WriteConfigFile,
                            Op_Stdout (''libp2p key generated for DKG. `dkgID` to share with other members:''
                              @ [CHR 0x0A] @ p2pID @ [CHR 0x0A])]))))))"

subsection \<open>The command \<open>dkg run\<close>\<close>

text \<open>\<open>errors.Join\<close>: the messages, one per line.\<close>

fun join_lines :: "string list \<Rightarrow> string" where
  "join_lines [] = []"
| "join_lines [m] = m"
| "join_lines (m # ms) = m @ [CHR 0x0A] @ join_lines ms"

definition errors_Join :: "error list \<Rightarrow> error" where
  "errors_Join errs = Errorf (join_lines (map message errs))"

text \<open>
  The validation at the head of \<open>RunE\<close>: the slice \<open>errs\<close> after the seven checks.
  \<open>shards\<close> is \<open>uint8(len(Cosigners))\<close>, the length modulo 256; \<open>shards/2\<close> is
  unsigned division.
\<close>

definition dkgRun_shards :: "RuntimeConfig \<Rightarrow> 8 word" where
  "dkgRun_shards config = of_nat (length (Cosigners (rc_ThresholdModeConfig config)))"

definition dkgRun_errs :: "8 word \<Rightarrow> string \<Rightarrow> 8 word \<Rightarrow> 8 word \<Rightarrow> error list" where
  "dkgRun_errs id' chainID threshold shards =
     (if id' = 0 then [Errorf ''id must not be zero''] else [])
     @ (if id' > shards then [Errorf ''id must not be greater than total shards''] else [])
     @ (if chainID = [] then [Errorf ''chain-id flag must not be empty''] else [])
     @ (if threshold = 0
          then [Errorf ''threshold flag must be > 0, <= --shards, and > --shards/2''] else [])
     @ (if shards = 0 then [Errorf ''shards flag must be greater than zero''] else [])
     @ (if threshold > shards
          then [Errorf (''threshold cannot be greater than total shards, got [threshold](''
                  @ fmt_d (uint threshold) @ '') > [shards]('' @ fmt_d (uint shards) @ '')'')]
        else [])
     @ (if threshold \<le> shards div 2
          then [Errorf (''threshold must be greater than total shards divided by 2, got [threshold](''
                  @ fmt_d (uint threshold) @ '') <= [shards]('' @ fmt_d (uint shards) @ '') / 2'')]
        else [])"

text \<open>What follows the validation: the output directory, the libp2p key, the ceremony, the shard file.\<close>

definition dkgRun_ceremony ::
  "('k, 's, 'a) dkg_env_scheme \<Rightarrow> RuntimeConfig \<Rightarrow> 8 word \<Rightarrow> string \<Rightarrow> string
     \<Rightarrow> effect list \<Rightarrow> error option \<times> effect list" where
  "dkgRun_ceremony env config id' chainID out tr0 =
     (let threshold = tm_Threshold (rc_ThresholdModeConfig config);
          libp2pKeyFile = filepath_Join env [rc_HomeDir config, ''libp2p.key''];
          tr1 = tr0 @ [Op_ReadFile libp2pKeyFile]
      in case os_ReadFile env libp2pKeyFile of
        Inl err \<Rightarrow>
          (Some (Errorf (''failed to read libp2p.key. Did you run horcrux dkg init first?: ''
             @ message err)), tr1)
      | Inr p2pKeyBz \<Rightarrow>
        (case crypto_UnmarshalEd25519PrivateKey env p2pKeyBz of
           Inl err \<Rightarrow> (Some err, tr1)
         | Inr p2pKey \<Rightarrow>
           (let tr2 = tr1 @ [Op_NetworkDKG id' threshold]
            in case signer_NetworkDKG env (Cosigners (rc_ThresholdModeConfig config)) id' p2pKey threshold of
              Inl err \<Rightarrow> (Some err, tr2)
            | Inr shard \<Rightarrow>
              (case json_Marshal env shard of
                 Inl err \<Rightarrow> (Some err, tr2)
               | Inr shardBz \<Rightarrow>
                 (let filename = filepath_Join env [out, chainID @ ''_shard.json''];
                      tr3 = tr2 @ [Op_WriteFile filename shardBz perm_0600]
                  in case os_WriteFile env filename shardBz perm_0600 of
                    Some err \<Rightarrow> (Some err, tr3)
                  | None \<Rightarrow>
                     (None, tr3 @ [Op_Stdout (''Created Ed25519 Shard '' @ filename @ [CHR 0x0A])]))))))"

text \<open>
  \<open>RunE\<close> of \<open>dkgRunCmd\<close>, from the flags \<open>id\<close> (here \<open>id'\<close>), \<open>chain-id\<close> and the output
  directory \<open>out\<close>: the error returned and the effects.
\<close>

definition dkgRunCmd ::
  "('k, 's, 'a) dkg_env_scheme \<Rightarrow> RuntimeConfig \<Rightarrow> 8 word \<Rightarrow> string \<Rightarrow> string
     \<Rightarrow> error option \<times> effect list" where
  "dkgRunCmd env config id' chainID out =
     (let threshold = tm_Threshold (rc_ThresholdModeConfig config);
          shards = dkgRun_shards config;
          errs = dkgRun_errs id' chainID threshold shards
      in if length errs > 0 then (Some (errors_Join errs), [])
         else if out \<noteq> [] then
           (case os_MkdirAll env out perm_0700 of
              Some err \<Rightarrow> (Some err, [Op_MkdirAll out perm_0700])
            | None \<Rightarrow> dkgRun_ceremony env config id' chainID out [Op_MkdirAll out perm_0700])
         else dkgRun_ceremony env config id' chainID out [])"

section \<open>signer/grpc_server.go\<close>

subsection \<open>Times, blocks and messages\<close>

text \<open>
  \<open>time.Time\<close> of the Go library, as seconds since the Unix epoch and nanoseconds within
  the second. \<open>time.Unix\<close> normalises the nanoseconds into \<open>[0, 10^9)\<close>; \<open>UnixNano\<close>
  is the count of nanoseconds in an \<open>int64\<close>.
\<close>

record Time =
  t_sec :: int
  t_nsec :: int

definition time_Unix :: "int \<Rightarrow> int \<Rightarrow> Time" where
  "time_Unix sec nsec = \<lparr>t_sec = sec + nsec div 1000000000, t_nsec = nsec mod 1000000000\<rparr>"

definition UnixNano :: "Time \<Rightarrow> 64 word" where
  "UnixNano t = word_of_int (t_sec t * 1000000000 + t_nsec t)"

text \<open>
  The messages of the \<open>proto\<close> package are generated code that is not among the
  sources; their fields are the ones the handlers read. A message-typed field is a
  pointer, and a getter on \<open>nil\<close> gives the zero value. \<open>Height\<close>, \<open>Round\<close> and
  \<open>Timestamp\<close> are \<open>int64\<close>; \<open>Step\<close> is converted by \<open>int8(...)\<close>, from \<open>int32\<close>.
\<close>

record proto_Block =
  pb_Height :: "64 word"
  pb_Round :: "64 word"
  pb_Step :: "32 word"
  pb_SignBytes :: bytes
  pb_Timestamp :: "64 word"

definition GetHeight :: "proto_Block option \<Rightarrow> 64 word" where
  "GetHeight b = (case b of None \<Rightarrow> 0 | Some x \<Rightarrow> pb_Height x)"

definition GetRound :: "proto_Block option \<Rightarrow> 64 word" where
  "GetRound b = (case b of None \<Rightarrow> 0 | Some x \<Rightarrow> pb_Round x)"

definition GetStep :: "proto_Block option \<Rightarrow> 32 word" where
  "GetStep b = (case b of None \<Rightarrow> 0 | Some x \<Rightarrow> pb_Step x)"

definition GetSignBytes :: "proto_Block option \<Rightarrow> bytes" where
  "GetSignBytes b = (case b of None \<Rightarrow> [] | Some x \<Rightarrow> pb_SignBytes x)"

definition GetTimestamp :: "proto_Block option \<Rightarrow> 64 word" where
  "GetTimestamp b = (case b of None \<Rightarrow> 0 | Some x \<Rightarrow> pb_Timestamp x)"

record SignBlockRequest =
  sbr_ChainID :: string
  sbr_Block :: "proto_Block option"

record SignBlockResponse =
  sbr_Signature :: bytes

text \<open>\<open>signer.Block\<close>, with the fields the handler sets.\<close>

record Block =
  Height :: "64 word"
  Round :: "64 word"
  Step :: "8 word"
  SignBytes :: bytes
  Timestamp :: Time

subsection \<open>\<open>SignBlock\<close>\<close>

text \<open>
  \<open>int8(...)\<close> keeps the low eight bits of the step. \<open>thresholdValidator.SignBlock\<close>
  is the parameter \<open>tv\<close>: from the state of the validator, the chain and the block, it
  gives the three results of the Go method (the signature and a timestamp, or the error)
  and the new state.
\<close>

definition GRPCServer_Block :: "SignBlockRequest \<Rightarrow> Block" where
  "GRPCServer_Block req =
     \<lparr>Height = GetHeight (sbr_Block req),
      Round = GetRound (sbr_Block req),
      Step = ucast (GetStep (sbr_Block req)),
      SignBytes = GetSignBytes (sbr_Block req),
      Timestamp = time_Unix 0 (sint (GetTimestamp (sbr_Block req)))\<rparr>"

definition GRPCServer_SignBlock ::
  "('st \<Rightarrow> string \<Rightarrow> Block \<Rightarrow> ('e + bytes \<times> Time) \<times> 'st) \<Rightarrow> 'st \<Rightarrow> SignBlockRequest
     \<Rightarrow> ('e + SignBlockResponse) \<times> 'st" where
  "GRPCServer_SignBlock tv st req =
     (case tv st (sbr_ChainID req) (GRPCServer_Block req) of
        (Inl err, st') \<Rightarrow> (Inl err, st')
      | (Inr (res, ts), st') \<Rightarrow> (Inr \<lparr>sbr_Signature = res\<rparr>, st'))"

subsection \<open>\<open>SetNoncesAndSign\<close>\<close>

text \<open>
  The \<open>hrst\<close> of a request is a message-typed field, a pointer that is \<open>nil\<close>
  (\<open>None\<close>) when the request carries none. The handler passes \<open>req.GetHrst()\<close>, the
  pointer, to \<open>HRSTKeyFromProto\<close>, and after the call of the cosigner it reads
  \<open>req.Hrst.Height\<close>, \<open>req.Hrst.Round\<close> and \<open>req.Hrst.Step\<close> for its log line,
  on the error path and on the success path alike: through a \<open>nil\<close> pointer that is a
  run-time panic, and the handler returns nothing. The conversions
  \<open>CosignerNoncesFromProto\<close> and \<open>HRSTKeyFromProto\<close> and the method
  \<open>LocalCosigner.SetNoncesAndSign\<close> are parameters; the cosigner has a state \<open>'st\<close>
  that its method may change.
\<close>

record proto_HRST =
  ph_Height :: "64 word"
  ph_Round :: "64 word"
  ph_Step :: "32 word"
  ph_Timestamp :: "64 word"

record 'pn SetNoncesAndSignRequest =
  snr_ChainID :: string
  snr_EncryptedSecrets :: "'pn list"
  snr_Hrst :: "proto_HRST option"
  snr_SignBytes :: bytes

record ('n, 'k) CosignerSetNoncesAndSignRequest =
  csr_ChainID :: string
  csr_EncryptedSecrets :: "'n list"
  csr_HRST :: 'k
  csr_SignBytes :: bytes

record CosignerSignResponse =
  res_Timestamp :: Time
  res_Signature :: bytes

record SetNoncesAndSignResponse =
  rsp_Timestamp :: "64 word"
  rsp_Signature :: bytes

definition nil_dereference :: error where
  "nil_dereference = Panic ''runtime error: invalid memory address or nil pointer dereference''"

definition hrst_fields :: "string \<Rightarrow> proto_HRST \<Rightarrow> (string \<times> string) list" where
  "hrst_fields chainID h =
     [(''chain_id'', chainID),
      (''height'', fmt_d (sint (ph_Height h))),
      (''round'', fmt_d (sint (ph_Round h))),
      (''step'', fmt_d (sint (ph_Step h)))]"

definition GRPCServer_SetNoncesAndSign ::
  "('st \<Rightarrow> ('n, 'k) CosignerSetNoncesAndSignRequest \<Rightarrow> (error + CosignerSignResponse) \<times> 'st)
     \<Rightarrow> ('pn list \<Rightarrow> 'n list) \<Rightarrow> (proto_HRST option \<Rightarrow> 'k) \<Rightarrow> 'st \<Rightarrow> 'pn SetNoncesAndSignRequest
     \<Rightarrow> (error + SetNoncesAndSignResponse) \<times> 'st \<times> effect list" where
  "GRPCServer_SetNoncesAndSign cosigner_SetNoncesAndSign CosignerNoncesFromProto HRSTKeyFromProto st req =
     (case cosigner_SetNoncesAndSign st
             \<lparr>csr_ChainID = snr_ChainID req,
              csr_EncryptedSecrets = CosignerNoncesFromProto (snr_EncryptedSecrets req),
              csr_HRST = HRSTKeyFromProto (snr_Hrst req),
              csr_SignBytes = snr_SignBytes req\<rparr> of
        (Inl err, st') \<Rightarrow>
          (case snr_Hrst req of
             None \<Rightarrow> (Inl nil_dereference, st', [])
           | Some h \<Rightarrow>
               (Inl err, st',
                [Op_LogError ''Failed to sign with shard''
                   (hrst_fields (snr_ChainID req) h @ [(''error'', message err)])]))
      | (Inr res, st') \<Rightarrow>
          (case snr_Hrst req of
             None \<Rightarrow> (Inl nil_dereference, st', [])
           | Some h \<Rightarrow>
               (Inr \<lparr>rsp_Timestamp = UnixNano (res_Timestamp res),
                     rsp_Signature = res_Signature res\<rparr>,
                st',
                [Op_LogInfo ''Signed with shard'' (hrst_fields (snr_ChainID req) h)])))"

subsection \<open>\<open>GetNonces\<close>\<close>

record GetNoncesRequest =
  gnr_ChainID :: string
  gnr_Hrst :: "proto_HRST option"

text \<open>
  \<open>LocalCosigner.GetNonces\<close> is the parameter \<open>cosigner_GetNonces\<close>, giving the
  encrypted secrets of its response or the error; \<open>toProto\<close> and \<open>HRSTKeyFromProto\<close>
  are parameters too. The handler reads the \<open>hrst\<close> through \<open>req.GetHrst()\<close> only.
\<close>

definition GRPCServer_GetNonces ::
  "('st \<Rightarrow> string \<Rightarrow> 'k \<Rightarrow> ('e + 'n list) \<times> 'st) \<Rightarrow> ('n list \<Rightarrow> 'pn list)
     \<Rightarrow> (proto_HRST option \<Rightarrow> 'k) \<Rightarrow> 'st \<Rightarrow> GetNoncesRequest \<Rightarrow> ('e + 'pn list) \<times> 'st" where
  "GRPCServer_GetNonces cosigner_GetNonces toProto HRSTKeyFromProto st req =
     (case cosigner_GetNonces st (gnr_ChainID req) (HRSTKeyFromProto (gnr_Hrst req)) of
        (Inl err, st') \<Rightarrow> (Inl err, st')
      | (Inr res, st') \<Rightarrow> (Inr (toProto res), st'))"

subsection \<open>\<open>TransferLeadership\<close>\<close>

text \<open>
  The states of a raft node are those of the raft library. A cosigner is known to the
  handler by \<open>GetID()\<close>, an integer that \<open>fmt.Sprint\<close> prints in decimal, and
  \<open>GetAddress()\<close>. \<open>p2pURLToRaftAddress\<close> is defined outside the sources: a parameter.
\<close>

datatype RaftState = Follower | Candidate | Leader | Shutdown

record Cosigner =
  GetID :: int
  GetAddress :: string

record TransferLeadershipResponse =
  LeaderID :: string
  LeaderAddress :: string

definition empty_response :: TransferLeadershipResponse where
  "empty_response = \<lparr>LeaderID = [], LeaderAddress = []\<rparr>"

fun TransferLeadership_loop ::
  "(string \<Rightarrow> string) \<Rightarrow> string \<Rightarrow> Cosigner list \<Rightarrow> (TransferLeadershipResponse \<times> effect list) option" where
  "TransferLeadership_loop p2pURLToRaftAddress leaderID [] = None"
| "TransferLeadership_loop p2pURLToRaftAddress leaderID (c # cs) =
     (let shardID = fmt_d (GetID c) in
      if shardID = leaderID then
        (let raftAddress = p2pURLToRaftAddress (GetAddress c) in
         Some (\<lparr>LeaderID = shardID, LeaderAddress = raftAddress\<rparr>,
               [Op_Stdout (''Transferring leadership to ID: '' @ shardID @ '' - Address: ''
                  @ raftAddress @ [CHR 0x0A]),
                Op_LeadershipTransferToServer shardID raftAddress]))
      else TransferLeadership_loop p2pURLToRaftAddress leaderID cs)"

definition GRPCServer_TransferLeadership ::
  "(string \<Rightarrow> string) \<Rightarrow> RaftState \<Rightarrow> Cosigner list \<Rightarrow> string
     \<Rightarrow> TransferLeadershipResponse \<times> effect list" where
  "GRPCServer_TransferLeadership p2pURLToRaftAddress raft_State Cosigners' leaderID =
     (if raft_State \<noteq> Leader then (empty_response, [])
      else (case (if leaderID \<noteq> [] then TransferLeadership_loop p2pURLToRaftAddress leaderID Cosigners'
                  else None) of
              Some r \<Rightarrow> r
            | None \<Rightarrow>
               (empty_response,
                [Op_Stdout (''Transferring leadership to next candidate'' @ [CHR 0x0A]),
                 Op_LeadershipTransfer])))"

section \<open>The collaborators of the server that are not among the sources\<close>

subsection \<open>The sign-state store and \<open>ThresholdValidator.SignBlock\<close>\<close>

text \<open>
  Modelled from the spec: \<open>ThresholdValidator\<close> and its sign-state store are missing
  from the sources. A \<open>SignState\<close> holds H, R, S, the signed payload and the signature;
  (H, R, S) is ordered lexicographically.
\<close>

type_synonym HRS = "int \<times> int \<times> int"

definition hrs_less :: "HRS \<Rightarrow> HRS \<Rightarrow> bool" where
  \<comment> \<open>Modelled from the spec: "Ordering: lexicographic by (H, R, S)".\<close>
  "hrs_less a b =
     (case a of (h, r, s) \<Rightarrow> case b of (h', r', s') \<Rightarrow>
        h < h' \<or> (h = h' \<and> (r < r' \<or> (r = r' \<and> s < s'))))"

definition hrs_le :: "HRS \<Rightarrow> HRS \<Rightarrow> bool" where
  "hrs_le a b = (a = b \<or> hrs_less a b)"

record SignState =
  ss_HRS :: HRS
  ss_SignBytes :: bytes
  ss_Signature :: bytes
  ss_Timestamp :: Time

definition block_HRS :: "Block \<Rightarrow> HRS" where
  "block_HRS b = (sint (Height b), sint (Round b), sint (Step b))"

text \<open>
  Modelled from the spec: \<open>CheckAndAdvance\<close> returns \<open>Proceed\<close> when (H, R, S) is
  strictly greater than the stored one, \<open>Replay\<close> of the stored signature when it is
  equal and the payload is bit-identical, and \<open>DoubleSign\<close> otherwise.
\<close>

datatype decision = Proceed | Replay bytes Time | DoubleSign

definition CheckAndAdvance :: "SignState \<Rightarrow> HRS \<Rightarrow> bytes \<Rightarrow> decision" where
  \<comment> \<open>Modelled from the spec: section 4.1, \<open>CheckAndAdvance\<close>.\<close>
  "CheckAndAdvance st hrs signBytes =
     (if hrs_less (ss_HRS st) hrs then Proceed
      else if hrs = ss_HRS st \<and> signBytes = ss_SignBytes st
        then Replay (ss_Signature st) (ss_Timestamp st)
      else DoubleSign)"

text \<open>The error kinds of the spec.\<close>

datatype sign_error =
    NotLeader string | NoQuorum | DoubleSignError | NonceReused | NonceNotFound
  | BadPartial | BadSignature | Busy | Internal

text \<open>
  Modelled from the spec: \<open>Commit\<close> writes the new state; called with a value that is
  not above the current one it is rejected as a bug.
\<close>

definition Commit :: "SignState \<Rightarrow> HRS \<Rightarrow> bytes \<Rightarrow> bytes \<Rightarrow> Time \<Rightarrow> sign_error + SignState" where
  \<comment> \<open>Modelled from the spec: section 4.1, \<open>Commit\<close> and its invariant.\<close>
  "Commit st hrs signBytes sig ts =
     (if hrs_less (ss_HRS st) hrs
        then Inr \<lparr>ss_HRS = hrs, ss_SignBytes = signBytes, ss_Signature = sig, ss_Timestamp = ts\<rparr>
      else Inl Internal)"

text \<open>
  What one request meets outside the store: whether this node is the leader (and the
  leader's address), what the two signing rounds and the aggregation give (steps 3 to 6:
  a signature, or \<open>NoQuorum\<close>, \<open>BadSignature\<close>, ...), and whether the replicated log
  commits the new entry.
\<close>

record tv_world =
  is_leader :: bool
  leader_addr :: string
  sign_result :: "sign_error + bytes"
  commit_ok :: bool

text \<open>
  Modelled from the spec: \<open>SignBlock\<close>, steps 1, 2 and 7 on the store (one
  \<open>SignState\<close> per chain), steps 3 to 6 through \<open>sign_result\<close>. The signature is
  returned only after the commit; a failed commit returns \<open>NotLeader\<close> and leaves the
  store as it was.
\<close>

definition ThresholdValidator_SignBlock ::
  "tv_world \<Rightarrow> (string \<Rightarrow> SignState) \<Rightarrow> string \<Rightarrow> Block
     \<Rightarrow> (sign_error + bytes \<times> Time) \<times> (string \<Rightarrow> SignState)" where
  \<comment> \<open>Modelled from the spec: section 4.5, \<open>SignBlock\<close>, steps 1 to 7.\<close>
  "ThresholdValidator_SignBlock w store chainID block =
     (if \<not> is_leader w then (Inl (NotLeader (leader_addr w)), store)
      else (case CheckAndAdvance (store chainID) (block_HRS block) (SignBytes block) of
          Replay sig ts \<Rightarrow> (Inr (sig, ts), store)
        | DoubleSign \<Rightarrow> (Inl DoubleSignError, store)
        | Proceed \<Rightarrow>
           (case sign_result w of
              Inl err \<Rightarrow> (Inl err, store)
            | Inr sig \<Rightarrow>
               (if \<not> commit_ok w then (Inl (NotLeader (leader_addr w)), store)
                else (case Commit (store chainID) (block_HRS block) (SignBytes block) sig
                             (Timestamp block) of
                        Inl err \<Rightarrow> (Inl err, store)
                      | Inr st' \<Rightarrow> (Inr (sig, Timestamp block), store(chainID := st')))))))"

text \<open>
  A sequence of \<open>SignBlock\<close> requests served one after the other by the handler of the
  source, each with what it meets outside the store. \<open>serve\<close> gives the responses in
  order and the final store; \<open>signed\<close> lists, in order, the requests that were answered
  with a signature: the chain, the (H, R, S) and the payload of the block signed.
\<close>

fun serve ::
  "(string \<Rightarrow> SignState) \<Rightarrow> (tv_world \<times> SignBlockRequest) list
     \<Rightarrow> (sign_error + SignBlockResponse) list \<times> (string \<Rightarrow> SignState)" where
  "serve store [] = ([], store)"
| "serve store ((w, req) # rest) =
     (case GRPCServer_SignBlock (ThresholdValidator_SignBlock w) store req of
        (rsp, store') \<Rightarrow> (case serve store' rest of (rsps, store'') \<Rightarrow> (rsp # rsps, store'')))"

fun signed ::
  "(string \<Rightarrow> SignState) \<Rightarrow> (tv_world \<times> SignBlockRequest) list \<Rightarrow> (string \<times> HRS \<times> bytes) list" where
  "signed store [] = []"
| "signed store ((w, req) # rest) =
     (case GRPCServer_SignBlock (ThresholdValidator_SignBlock w) store req of
        (Inl err, store') \<Rightarrow> signed store' rest
      | (Inr rsp, store') \<Rightarrow>
          (sbr_ChainID req, block_HRS (GRPCServer_Block req), SignBytes (GRPCServer_Block req))
            # signed store' rest)"

subsection \<open>The nonce cache and \<open>LocalCosigner.GetNonces\<close>\<close>

text \<open>
  Modelled from the spec: \<open>LocalCosigner\<close> and its \<open>NonceCache\<close> are missing from the
  sources. Section 4.4 gives \<open>GetNonces(chainID, HRST)\<close> as "idempotent per HRS: a
  repeat returns the cached R_i and ciphertexts"; the cache maps (chainID, HRS) to the
  entry that the first \<open>GetNonces\<close> call for the key creates. The nonce shares that a
  call generates and encrypts when it finds no entry (or the error of doing so) are an
  input of the call. \<open>GetNonces\<close> is the only operation on the cache here: the
  eviction of sections 3 and 5 belongs to other operations, and the spec does not say
  what a call after an eviction returns.
\<close>

record HRSTKey =
  k_Height :: int
  k_Round :: int
  k_Step :: int
  k_Timestamp :: int

definition HRSTKeyFromProto :: "proto_HRST option \<Rightarrow> HRSTKey" where
  \<comment> \<open>Modelled from the spec: an HRST is H, R, S and a timestamp; the conversion copies
      them, and reads zeros from a missing message as the getters do.\<close>
  "HRSTKeyFromProto p =
     (case p of
        None \<Rightarrow> \<lparr>k_Height = 0, k_Round = 0, k_Step = 0, k_Timestamp = 0\<rparr>
      | Some h \<Rightarrow>
          \<lparr>k_Height = sint (ph_Height h), k_Round = sint (ph_Round h),
           k_Step = sint (ph_Step h), k_Timestamp = sint (ph_Timestamp h)\<rparr>)"

definition key_HRS :: "HRSTKey \<Rightarrow> HRS" where
  "key_HRS k = (k_Height k, k_Round k, k_Step k)"

type_synonym 'n NonceCache = "string \<times> HRS \<Rightarrow> 'n list option"

definition LocalCosigner_GetNonces ::
  "(sign_error + 'n list) \<Rightarrow> 'n NonceCache \<Rightarrow> string \<Rightarrow> HRSTKey
     \<Rightarrow> (sign_error + 'n list) \<times> 'n NonceCache" where
  \<comment> \<open>Modelled from the spec: section 4.4, \<open>GetNonces\<close>, over the \<open>NonceCache\<close> of section 3.\<close>
  "LocalCosigner_GetNonces fresh cache chainID hrst =
     (let k = (chainID, key_HRS hrst) in
      case cache k of
        Some s \<Rightarrow> (Inr s, cache)
      | None \<Rightarrow>
         (case fresh of
            Inl err \<Rightarrow> (Inl err, cache)
          | Inr s \<Rightarrow> (Inr s, cache(k \<mapsto> s))))"

text \<open>The \<open>GetNonces\<close> handler of the source over this cosigner.\<close>

definition GetNonces_rpc ::
  "('n list \<Rightarrow> 'pn list) \<Rightarrow> (sign_error + 'n list) \<Rightarrow> 'n NonceCache \<Rightarrow> GetNoncesRequest
     \<Rightarrow> (sign_error + 'pn list) \<times> 'n NonceCache" where
  "GetNonces_rpc toProto fresh cache req =
     GRPCServer_GetNonces (LocalCosigner_GetNonces fresh) toProto HRSTKeyFromProto cache req"

text \<open>
  A sequence of \<open>GetNonces\<close> requests served one after the other, each with the nonce
  shares it would generate: the responses in order. \<open>request_key\<close> is the
  (chainID, HRS) of a request.
\<close>

fun nonce_calls ::
  "('n list \<Rightarrow> 'pn list) \<Rightarrow> 'n NonceCache \<Rightarrow> ((sign_error + 'n list) \<times> GetNoncesRequest) list
     \<Rightarrow> (sign_error + 'pn list) list" where
  "nonce_calls toProto cache [] = []"
| "nonce_calls toProto cache ((fresh, req) # rest) =
     (case GetNonces_rpc toProto fresh cache req of
        (rsp, cache') \<Rightarrow> rsp # nonce_calls toProto cache' rest)"


section \<open>Sample inputs\<close>

text \<open>
  Concrete inputs on which the properties below are evaluated. \<open>sample_parse\<close> stands
  for \<open>url.Parse\<close>: it rejects an address that begins with a colon (Go: missing
  protocol scheme) and accepts the others used here.
\<close>

definition sample_parse :: "string \<Rightarrow> error option" where
  "sample_parse a =
     (if a \<noteq> [] \<and> hd a = CHR '':'' then Some (Errorf ''missing protocol scheme'') else None)"

definition sample_peers :: "CosignerPeer list" where
  "sample_peers = [\<lparr>ShareID = 2, P2PAddr = ''tcp://node-2:2222''\<rparr>,
                   \<lparr>ShareID = 3, P2PAddr = ''tcp://node-3:2222''\<rparr>,
                   \<lparr>ShareID = 4, P2PAddr = ''tcp://node-4:2222''\<rparr>,
                   \<lparr>ShareID = 5, P2PAddr = ''tcp://node-5:2222''\<rparr>]"

definition sample_cosigner_cfg :: "int \<Rightarrow> Config" where
  "sample_cosigner_cfg t =
     \<lparr>HomeDir = ''/home/v/.horcrux'', ChainID = ''cosmoshub-4'',
      CosignerConfig = Some \<lparr>Threshold = t, P2PListen = ''tcp://0.0.0.0:2222'', Peers = sample_peers\<rparr>,
      ChainNodes = [\<lparr>PrivValAddr = ''tcp://node-1:1234''\<rparr>]\<rparr>"

text \<open>
  A world for \<open>config init\<close> in which every file-system call succeeds: \<open>path.Join\<close>
  on clean components (it skips the empty ones), \<open>strconv.ParseInt\<close> on unsigned
  decimal numerals.
\<close>

fun join_slash :: "string list \<Rightarrow> string" where
  "join_slash [] = []"
| "join_slash [p] = p"
| "join_slash (p # ps) = p @ ''/'' @ join_slash ps"

definition sample_Join :: "string list \<Rightarrow> string" where
  "sample_Join ps = join_slash (filter (\<lambda>p. p \<noteq> []) ps)"

definition sample_ParseInt :: "string \<Rightarrow> error + int" where
  "sample_ParseInt s =
     (if s \<noteq> [] \<and> list_all (\<lambda>c. 48 \<le> (of_char c :: nat) \<and> (of_char c :: nat) \<le> 57) s
        then Inr (foldl (\<lambda>acc c. 10 * acc + (int (of_char c) - 48)) 0 s)
      else Inl (Errorf ''invalid syntax''))"

definition sample_cfg_env :: cfg_env where
  "sample_cfg_env =
     \<lparr>os_MkdirAll = (\<lambda>p m. None),
      url_Parse = sample_parse,
      strconv_ParseInt = sample_ParseInt,
      homedir_Dir = ''/home/v'',
      path_Join = sample_Join,
      ioutil_WriteFile = (\<lambda>p b m. None),
      yaml_Marshal = (\<lambda>c. Inr []),
      signer_LoadOrCreateSignState = (\<lambda>p. None)\<rparr>"

definition sample_single_init :: init_input where
  "sample_single_init =
     \<lparr>args = [''hub'', ''tcp://n1:1''], flag_cosigner = False, flag_peers = [],
      flag_threshold = 0, cfgFile = []\<rparr>"

definition sample_cosigner_init :: init_input where
  "sample_cosigner_init =
     \<lparr>args = [''hub'', ''tcp://n1:1''], flag_cosigner = True, flag_peers = ''tcp://n2:2|2,tcp://n3:2|3'',
      flag_threshold = 2, cfgFile = []\<rparr>"

text \<open>
  A world for the \<open>dkg\<close> commands in which every call succeeds; keys and shards are
  byte strings. \<open>sample_runtime ids t\<close> is a configuration with one cosigner for each
  shard ID of \<open>ids\<close> and threshold \<open>t\<close>; the cosigner of shard 2 already has a
  DKG ID.
\<close>

definition sample_dkg_env :: "(bytes, bytes) dkg_env" where
  "sample_dkg_env =
     \<lparr>os_MkdirAll = (\<lambda>p m. None),
      crypto_GenerateEd25519Key = Inr [1, 2, 3],
      privKey_Raw = (\<lambda>k. Inr k),
      peer_IDFromPrivateKey = (\<lambda>k. Inr ''12D3KooWn1''),
      filepath_Join = sample_Join,
      os_WriteFile = (\<lambda>p b m. None),
      os_ReadFile = (\<lambda>p. Inr [1, 2, 3]),
      config_WriteConfigFile = (\<lambda>c. None),
      crypto_UnmarshalEd25519PrivateKey = (\<lambda>b. Inr b),
      signer_NetworkDKG = (\<lambda>cs i k t. Inr [7]),
      json_Marshal = (\<lambda>s. Inr s)\<rparr>"

definition sample_cosigner :: "8 word \<Rightarrow> ThresholdCosigner" where
  "sample_cosigner i =
     \<lparr>ShardID = i, c_P2PAddr = ''tcp://n:2222'', c_RaftAddr = ''tcp://n:2223'',
      DKGID = (if i = 2 then ''12D3KooWn2'' else [])\<rparr>"

definition sample_runtime :: "8 word list \<Rightarrow> 8 word \<Rightarrow> RuntimeConfig" where
  "sample_runtime ids t =
     \<lparr>rc_HomeDir = ''/home/v/.horcrux'',
      rc_ThresholdModeConfig = \<lparr>tm_Threshold = t, Cosigners = map sample_cosigner ids\<rparr>\<rparr>"

text \<open>
  Three cosigners as the server knows them, and a \<open>p2pURLToRaftAddress\<close> that drops
  the scheme \<open>tcp://\<close> of the address.
\<close>

definition sample_cosigners :: "Cosigner list" where
  "sample_cosigners =
     [\<lparr>GetID = 1, GetAddress = ''tcp://n1:2222''\<rparr>,
      \<lparr>GetID = 2, GetAddress = ''tcp://n2:2222''\<rparr>,
      \<lparr>GetID = 3, GetAddress = ''tcp://n3:2222''\<rparr>]"

definition sample_raft_address :: "string \<Rightarrow> string" where
  "sample_raft_address a = drop 6 a"

text \<open>
  A cosigner without state that signs every request but those of the chain \<open>bad\<close>, and
  a request for it, with or without an \<open>hrst\<close>; nonces are byte strings here and the
  conversions copy them.
\<close>

definition sample_sign ::
  "unit \<Rightarrow> (bytes, proto_HRST option) CosignerSetNoncesAndSignRequest
     \<Rightarrow> (error + CosignerSignResponse) \<times> unit" where
  "sample_sign st req =
     (if csr_ChainID req = ''bad'' then (Inl (Errorf ''no key for chain''), st)
      else (Inr \<lparr>res_Timestamp = time_Unix 1700000000 5, res_Signature = [9, 8, 7]\<rparr>, st))"

definition sample_sign_request :: "string \<Rightarrow> proto_HRST option \<Rightarrow> bytes SetNoncesAndSignRequest" where
  "sample_sign_request chain hrst =
     \<lparr>snr_ChainID = chain, snr_EncryptedSecrets = [[1], [2]], snr_Hrst = hrst,
      snr_SignBytes = [97, 98, 99]\<rparr>"

definition sample_hrst :: proto_HRST where
  "sample_hrst = \<lparr>ph_Height = 100, ph_Round = 0, ph_Step = 2, ph_Timestamp = 0\<rparr>"

text \<open>
  The scenarios of the spec on one chain: a store in which nothing has been signed, a
  world in which this node leads, the quorum signs and the log commits, and a request
  for a block.
\<close>

definition fresh_store :: "string \<Rightarrow> SignState" where
  "fresh_store c = \<lparr>ss_HRS = (0, 0, 0), ss_SignBytes = [], ss_Signature = [],
                    ss_Timestamp = \<lparr>t_sec = 0, t_nsec = 0\<rparr>\<rparr>"

definition good_world :: "bytes \<Rightarrow> tv_world" where
  "good_world sig = \<lparr>is_leader = True, leader_addr = ''n1:2223'', sign_result = Inr sig,
                     commit_ok = True\<rparr>"

definition block_request :: "64 word \<Rightarrow> 64 word \<Rightarrow> 32 word \<Rightarrow> bytes \<Rightarrow> SignBlockRequest" where
  "block_request h r s b =
     \<lparr>sbr_ChainID = ''hub'',
      sbr_Block = Some \<lparr>pb_Height = h, pb_Round = r, pb_Step = s, pb_SignBytes = b,
                         pb_Timestamp = 0\<rparr>\<rparr>"

definition scenario :: "(tv_world \<times> SignBlockRequest) list" where
  "scenario =
     [(good_world [1], block_request 100 0 2 [97, 98, 99]),
      (good_world [2], block_request 100 0 2 [97, 98, 99]),
      (good_world [3], block_request 100 0 2 [68, 73, 70, 70]),
      (good_world [4], block_request 100 0 3 [120, 121, 122]),
      (good_world [5], block_request 100 0 2 [97, 98, 99])]"




text \<open>A world for \<open>dkg run\<close> in which the libp2p key has not been written yet.\<close>

definition no_key_env :: "(bytes, bytes) dkg_env" where
  "no_key_env = sample_dkg_env\<lparr>os_ReadFile := (\<lambda>p. Inl (Errorf ''no such file or directory''))\<rparr>"

section \<open>Properties of \<open>config.go\<close>\<close>

subsection \<open>\<open>validateChainNodes\<close>\<close>

lemma validateChainNodes_loop_last:
  "nodes \<noteq> [] \<Longrightarrow> validateChainNodes_loop parse err nodes = parse (PrivValAddr (last nodes))"
  by (induction nodes arbitrary: err) auto

text \<open>
  C9: \<open>validateChainNodes\<close> returns \<open>nil\<close> for the empty list, and for a non-empty
  list the result of parsing the address of the last node, whatever parsing the earlier
  addresses gave.
\<close>

theorem validateChainNodes_last_only:
  "validateChainNodes parse [] = None \<and>
   (nodes \<noteq> [] \<longrightarrow> validateChainNodes parse nodes = parse (PrivValAddr (last nodes)))"
  by (simp add: validateChainNodes_def validateChainNodes_loop_last)

text \<open>The first address fails to parse, the last one parses: no error is returned.\<close>

theorem validateChainNodes_last_only_witness:
  "[\<lparr>PrivValAddr = '':bad''\<rparr>, \<lparr>PrivValAddr = ''tcp://node-1:1234''\<rparr>] \<noteq> []
   \<and> sample_parse '':bad'' \<noteq> None
   \<and> validateChainNodes sample_parse
        [\<lparr>PrivValAddr = '':bad''\<rparr>, \<lparr>PrivValAddr = ''tcp://node-1:1234''\<rparr>] = None"
  using validateChainNodes_last_only [of sample_parse
      "[\<lparr>PrivValAddr = '':bad''\<rparr>, \<lparr>PrivValAddr = ''tcp://node-1:1234''\<rparr>]"]
  by (simp add: sample_parse_def)

subsection \<open>\<open>validateCosignerConfig\<close>\<close>

text \<open>
  C2 as stated, "on every accepted configuration the threshold is at least 2 and
  strictly greater than N/2, N the number of peers plus 1", fails: with four peers
  (N = 5) the threshold 2 is accepted, and 2 is not above 5/2.
\<close>

theorem validateCosignerConfig_majority_counterexample:
  "validateCosignerConfig sample_parse (sample_cosigner_cfg 2) = None
   \<and> int (length sample_peers) + 1 = 5
   \<and> \<not> (2 * (2::int) > int (length sample_peers) + 1)"
  by (simp add: validateCosignerConfig_def sample_cosigner_cfg_def sample_peers_def
      sample_parse_def validateCosignerPeers_def validateChainNodes_def)

text \<open>
  C2, amended: on every configuration that \<open>validateCosignerConfig\<close> accepts, the
  threshold is at least 2 and at most N, the number of configured peers plus 1.
\<close>

theorem validateCosignerConfig_accepts:
  "validateCosignerConfig parse cfg = None \<Longrightarrow>
     \<exists>cc. CosignerConfig cfg = Some cc \<and> 2 \<le> Threshold cc
        \<and> Threshold cc \<le> int (length (Peers cc)) + 1"
  by (auto simp: validateCosignerConfig_def split: if_splits option.splits)

theorem validateCosignerConfig_accepts_witness:
  "validateCosignerConfig sample_parse (sample_cosigner_cfg 3) = None
   \<and> (\<exists>cc. CosignerConfig (sample_cosigner_cfg 3) = Some cc \<and> 2 \<le> Threshold cc
        \<and> Threshold cc \<le> int (length (Peers cc)) + 1)"
proof -
  have ok: "validateCosignerConfig sample_parse (sample_cosigner_cfg 3) = None"
    by (simp add: validateCosignerConfig_def sample_cosigner_cfg_def sample_peers_def
      sample_parse_def validateCosignerPeers_def validateChainNodes_def)
  from validateCosignerConfig_accepts [OF ok] ok show ?thesis by simp
qed

subsection \<open>\<open>config init\<close>\<close>

lemma peersFromFlag_loop_effects:
  "peersFromFlag_loop env out ps = (r, tr) \<Longrightarrow>
     (case r of Inr peers \<Rightarrow> tr = [] | Inl err \<Rightarrow> tr = [] \<or> (\<exists>ws. tr = [Op_Println ws]))"
  by (induction env out ps rule: peersFromFlag_loop.induct)
     (auto simp: Let_def split: if_splits sum.splits option.splits)

lemma initCmd_config_effects:
  "initCmd_config env inp cid cn homeDir = (r, tr) \<Longrightarrow>
     (case r of Inr cfg \<Rightarrow> tr = [] | Inl err \<Rightarrow> tr = [] \<or> (\<exists>ws. tr = [Op_Println ws]))"
  using peersFromFlag_loop_effects [of env "[]" "strings_Split (flag_peers inp) CHR '',''"]
  by (auto simp: initCmd_config_def peersFromFlag_def Let_def
      split: if_splits sum.splits option.splits prod.splits)


lemma initCmd_files_modes:
  "initCmd_files env cs homeDir cid cfg = (r, tr) \<Longrightarrow>
     (\<forall>p m. Op_MkdirAll p m \<in> set tr \<longrightarrow> m = perm_0755) \<and>
     (\<forall>p b m. Op_WriteFile p b m \<in> set tr \<longrightarrow> m = perm_0644)"
  by (auto simp: initCmd_files_def writeConfigFile_def MustMarshalYaml_def Let_def
      split: if_splits sum.splits option.splits prod.splits)

lemma initCmd_modes:
  "(\<forall>p m. Op_MkdirAll p m \<in> set (snd (initCmd env inp)) \<longrightarrow> m = perm_0755)
   \<and> (\<forall>p b m. Op_WriteFile p b m \<in> set (snd (initCmd env inp)) \<longrightarrow> m = perm_0644)"
proof -
  obtain r tr where run: "initCmd env inp = (r, tr)" by (cases "initCmd env inp")
  have "(\<forall>p m. Op_MkdirAll p m \<in> set tr \<longrightarrow> m = perm_0755)
      \<and> (\<forall>p b m. Op_WriteFile p b m \<in> set tr \<longrightarrow> m = perm_0644)"
  proof (cases "length (args inp) < 1 \<or> 2 < length (args inp)")
    case True
    with run show ?thesis by (auto simp: initCmd_def)
  next
    case False
    show ?thesis
    proof (cases "if length (args inp) = 2 then chainNodesFromArg (url_Parse env) (args inp ! 1)
              else ([], None)")
      case (Pair cn e)
      show ?thesis
      proof (cases e)
        case (Some err)
        with run False Pair show ?thesis by (auto simp: initCmd_def Let_def)
      next
        case None
        obtain rc tr1 where
          c: "initCmd_config env inp (args inp ! 0) cn (initCmd_homeDir env inp) = (rc, tr1)"
          by (cases "initCmd_config env inp (args inp ! 0) cn (initCmd_homeDir env inp)")
        from initCmd_config_effects [OF c] have tr1: "tr1 = [] \<or> (\<exists>ws. tr1 = [Op_Println ws])"
          by (cases rc) auto
        show ?thesis
        proof (cases rc)
          case (Inl err)
          with run False Pair None c have "tr = tr1" by (auto simp: initCmd_def Let_def)
          with tr1 show ?thesis by auto
        next
          case (Inr cfg)
          obtain rf tr2 where
            f: "initCmd_files env (flag_cosigner inp) (initCmd_homeDir env inp) (args inp ! 0) cfg
                  = (rf, tr2)"
            by (cases "initCmd_files env (flag_cosigner inp) (initCmd_homeDir env inp) (args inp ! 0) cfg")
          with run False Pair None c Inr have "tr = tr1 @ tr2" by (auto simp: initCmd_def Let_def)
          with tr1 initCmd_files_modes [OF f] show ?thesis by auto
        qed
      qed
    qed
  qed
  with run show ?thesis by simp
qed

lemmas init_eval = initCmd_def chainNodesFromArg_def
  parseChainNodes_def validateChainNodes_def sample_parse_def initCmd_homeDir_def
  initCmd_config_def peersFromFlag_def sample_ParseInt_def validateCosignerConfig_def
  validateSingleSignerConfig_def validateCosignerPeers_def initCmd_files_def writeConfigFile_def
  MustMarshalYaml_def sample_Join_def Let_def

lemma sample_single_init_run:
  "initCmd sample_cfg_env sample_single_init =
     (None, [Op_MkdirAll ''/home/v/.horcrux/state'' perm_0755,
             Op_WriteFile ''/home/v/.horcrux/config.yaml'' [] perm_0644,
             Op_LoadOrCreateSignState ''/home/v/.horcrux/state/hub_priv_validator_state.json''])"
  by (simp add: sample_cfg_env_def sample_single_init_def init_eval)

lemma sample_cosigner_init_run:
  "initCmd sample_cfg_env sample_cosigner_init =
     (None, [Op_MkdirAll ''/home/v/.horcrux/state'' perm_0755,
             Op_WriteFile ''/home/v/.horcrux/config.yaml'' [] perm_0644,
             Op_LoadOrCreateSignState ''/home/v/.horcrux/state/hub_priv_validator_state.json'',
             Op_LoadOrCreateSignState ''/home/v/.horcrux/state/hub_share_sign_state.json''])"
  by (simp add: sample_cfg_env_def sample_cosigner_init_def init_eval)



section \<open>Properties of the \<open>dkg\<close> commands\<close>

subsection \<open>\<open>dkg run\<close>: the validation\<close>

lemma dkgRun_errs_empty_iff:
  "dkgRun_errs id' chainID threshold shards = [] \<longleftrightarrow>
     \<not> (id' = 0 \<or> id' > shards \<or> chainID = [] \<or> threshold = 0 \<or> shards = 0
        \<or> threshold > shards \<or> threshold \<le> shards div 2)"
  by (simp add: dkgRun_errs_def)

lemma dkgRun_ceremony_effects:
  "snd (dkgRun_ceremony env config id' chainID out tr0) \<noteq> []"
  by (simp add: dkgRun_ceremony_def Let_def split: sum.splits option.splits)

lemma dkgRunCmd_rejects:
  "dkgRun_errs id' chainID (tm_Threshold (rc_ThresholdModeConfig config)) (dkgRun_shards config) \<noteq> []
   \<Longrightarrow> dkgRunCmd env config id' chainID out =
       (Some (errors_Join (dkgRun_errs id' chainID (tm_Threshold (rc_ThresholdModeConfig config))
                 (dkgRun_shards config))), [])"
  by (simp add: dkgRunCmd_def Let_def)

lemma dkgRunCmd_accepts:
  "dkgRun_errs id' chainID (tm_Threshold (rc_ThresholdModeConfig config)) (dkgRun_shards config) = []
   \<Longrightarrow> snd (dkgRunCmd env config id' chainID out) \<noteq> []"
  by (simp add: dkgRunCmd_def Let_def dkgRun_ceremony_effects split: option.splits)

lemma accepted_threshold:
  fixes threshold shards :: "8 word"
  assumes "\<not> threshold = 0" "\<not> threshold \<le> shards div 2"
  shows "1 \<le> unat threshold \<and> unat shards < 2 * unat threshold"
proof -
  from assms(1) have "unat threshold \<noteq> 0" by (simp add: unat_eq_0)
  moreover from assms(2) have "unat shards div 2 < unat threshold"
    by (simp add: word_le_nat_alt unat_div)
  ultimately show ?thesis by arith
qed

lemmas dkg_eval = dkgRunCmd_def dkgRun_ceremony_def dkgRun_errs_def dkgRun_shards_def
  sample_dkg_env_def sample_runtime_def sample_cosigner_def sample_Join_def Let_def
  word_le_nat_alt word_less_nat_alt

lemma sample_dkg_run:
  "dkgRunCmd sample_dkg_env (sample_runtime [1, 2, 3] 2) 1 ''hub'' ''out'' =
     (None, [Op_MkdirAll ''out'' perm_0700,
             Op_ReadFile ''/home/v/.horcrux/libp2p.key'',
             Op_NetworkDKG 1 2,
             Op_WriteFile ''out/hub_shard.json'' [7] perm_0600,
             Op_Stdout (''Created Ed25519 Shard out/hub_shard.json'' @ [CHR 0x0A])])"
  by (simp add: dkg_eval)

lemma no_key_run:
  "dkgRunCmd no_key_env (sample_runtime [1, 2, 3] 2) 1 ''hub'' [] =
     (Some (Errorf (''failed to read libp2p.key. Did you run horcrux dkg init first?: ''
              @ ''no such file or directory'')),
      [Op_ReadFile ''/home/v/.horcrux/libp2p.key''])"
  by (simp add: no_key_env_def dkg_eval)

lemma dkgRunCmd_validation_words:
  "((fst (dkgRunCmd env config id' chainID out) \<noteq> None
       \<and> snd (dkgRunCmd env config id' chainID out) = [])
     \<longleftrightarrow> (id' = 0 \<or> id' > dkgRun_shards config \<or> chainID = []
          \<or> tm_Threshold (rc_ThresholdModeConfig config) = 0 \<or> dkgRun_shards config = 0
          \<or> tm_Threshold (rc_ThresholdModeConfig config) > dkgRun_shards config
          \<or> tm_Threshold (rc_ThresholdModeConfig config) \<le> dkgRun_shards config div 2))
   \<and> (snd (dkgRunCmd env config id' chainID out) \<noteq> [] \<longrightarrow>
         1 \<le> unat (tm_Threshold (rc_ThresholdModeConfig config))
       \<and> unat (dkgRun_shards config) < 2 * unat (tm_Threshold (rc_ThresholdModeConfig config)))"
proof (cases "dkgRun_errs id' chainID (tm_Threshold (rc_ThresholdModeConfig config))
                (dkgRun_shards config) = []")
  case True
  note acc = dkgRunCmd_accepts [OF True, of env out]
  from True have no: "\<not> (id' = 0 \<or> id' > dkgRun_shards config \<or> chainID = []
          \<or> tm_Threshold (rc_ThresholdModeConfig config) = 0 \<or> dkgRun_shards config = 0
          \<or> tm_Threshold (rc_ThresholdModeConfig config) > dkgRun_shards config
          \<or> tm_Threshold (rc_ThresholdModeConfig config) \<le> dkgRun_shards config div 2)"
    using dkgRun_errs_empty_iff [of id' chainID "tm_Threshold (rc_ThresholdModeConfig config)"
        "dkgRun_shards config"]
    by blast
  then have "1 \<le> unat (tm_Threshold (rc_ThresholdModeConfig config))
       \<and> unat (dkgRun_shards config) < 2 * unat (tm_Threshold (rc_ThresholdModeConfig config))"
    using accepted_threshold by blast
  with acc no show ?thesis by blast
next
  case False
  note rej = dkgRunCmd_rejects [OF False, of env out]
  from False have "id' = 0 \<or> id' > dkgRun_shards config \<or> chainID = []
          \<or> tm_Threshold (rc_ThresholdModeConfig config) = 0 \<or> dkgRun_shards config = 0
          \<or> tm_Threshold (rc_ThresholdModeConfig config) > dkgRun_shards config
          \<or> tm_Threshold (rc_ThresholdModeConfig config) \<le> dkgRun_shards config div 2"
    using dkgRun_errs_empty_iff [of id' chainID "tm_Threshold (rc_ThresholdModeConfig config)"
        "dkgRun_shards config"]
    by blast
  with rej show ?thesis by simp
qed

text \<open>With fewer than 256 cosigners, \<open>shards\<close> is their number.\<close>

lemma unat_dkgRun_shards:
  "length (Cosigners (rc_ThresholdModeConfig config)) < 256 \<Longrightarrow>
     unat (dkgRun_shards config) = length (Cosigners (rc_ThresholdModeConfig config))"
  by (simp add: dkgRun_shards_def unat_of_nat)

text \<open>
  C4 as stated fails in two places. It ends with "every accepted invocation satisfies
  threshold \<open>\<ge>\<close> 2": with a single cosigner, threshold 1 and shard ID 1 pass the seven
  checks, and the ceremony runs and writes the shard file. And an error "before
  performing any ceremony or writing any file" is returned without any of the seven
  conditions: three cosigners, threshold 2, shard ID 1 and a chain ID pass the checks
  (\<open>errs\<close> is empty), and when \<open>libp2p.key\<close> cannot be read the command returns that
  error, with no ceremony and no file written.
\<close>

theorem dkgRunCmd_threshold_one_counterexample:
  "dkgRunCmd sample_dkg_env (sample_runtime [1] 1) 1 ''hub'' [] =
     (None, [Op_ReadFile ''/home/v/.horcrux/libp2p.key'',
             Op_NetworkDKG 1 1,
             Op_WriteFile ''hub_shard.json'' [7] perm_0600,
             Op_Stdout (''Created Ed25519 Shard hub_shard.json'' @ [CHR 0x0A])])
   \<and> \<not> (2 \<le> unat (tm_Threshold (rc_ThresholdModeConfig (sample_runtime [1] 1))))
   \<and> dkgRun_errs 1 ''hub'' (tm_Threshold (rc_ThresholdModeConfig (sample_runtime [1, 2, 3] 2)))
        (dkgRun_shards (sample_runtime [1, 2, 3] 2)) = []
   \<and> dkgRunCmd no_key_env (sample_runtime [1, 2, 3] 2) 1 ''hub'' [] =
     (Some (Errorf (''failed to read libp2p.key. Did you run horcrux dkg init first?: ''
              @ ''no such file or directory'')),
      [Op_ReadFile ''/home/v/.horcrux/libp2p.key''])"
  by (simp add: no_key_run) (simp add: dkg_eval)

text \<open>
  C4, amended: for a configuration of fewer than 256 cosigners, with shards their number,
  \<open>dkg run\<close> returns an error before it attempts any file-system call or the ceremony
  (the validation error) if and only if at least one of these holds: id = 0, id > shards,
  chain-id is empty, threshold = 0, shards = 0, threshold > shards, or threshold \<open>\<le>\<close>
  shards/2 rounded down. Every invocation that passes this validation satisfies
  threshold \<open>\<ge>\<close> 1 and threshold > shards/2.
\<close>

theorem dkgRunCmd_validation:
  assumes small: "length (Cosigners (rc_ThresholdModeConfig config)) < 256"
  shows "((fst (dkgRunCmd env config id' chainID out) \<noteq> None
             \<and> snd (dkgRunCmd env config id' chainID out) = [])
          \<longleftrightarrow> (id' = 0
               \<or> unat id' > length (Cosigners (rc_ThresholdModeConfig config))
               \<or> chainID = []
               \<or> tm_Threshold (rc_ThresholdModeConfig config) = 0
               \<or> length (Cosigners (rc_ThresholdModeConfig config)) = 0
               \<or> unat (tm_Threshold (rc_ThresholdModeConfig config))
                    > length (Cosigners (rc_ThresholdModeConfig config))
               \<or> unat (tm_Threshold (rc_ThresholdModeConfig config))
                    \<le> length (Cosigners (rc_ThresholdModeConfig config)) div 2))
         \<and> (snd (dkgRunCmd env config id' chainID out) \<noteq> [] \<longrightarrow>
               1 \<le> unat (tm_Threshold (rc_ThresholdModeConfig config))
             \<and> length (Cosigners (rc_ThresholdModeConfig config))
                  < 2 * unat (tm_Threshold (rc_ThresholdModeConfig config)))"
proof -
  note n = unat_dkgRun_shards [OF small]
  have a: "id' > dkgRun_shards config
             \<longleftrightarrow> unat id' > length (Cosigners (rc_ThresholdModeConfig config))"
    by (simp add: word_less_nat_alt n)
  have b: "dkgRun_shards config = 0 \<longleftrightarrow> length (Cosigners (rc_ThresholdModeConfig config)) = 0"
    using n by (metis unat_eq_0)
  have c: "tm_Threshold (rc_ThresholdModeConfig config) > dkgRun_shards config
             \<longleftrightarrow> unat (tm_Threshold (rc_ThresholdModeConfig config))
                   > length (Cosigners (rc_ThresholdModeConfig config))"
    by (simp add: word_less_nat_alt n)
  have d: "tm_Threshold (rc_ThresholdModeConfig config) \<le> dkgRun_shards config div 2
             \<longleftrightarrow> unat (tm_Threshold (rc_ThresholdModeConfig config))
                   \<le> length (Cosigners (rc_ThresholdModeConfig config)) div 2"
    by (simp add: word_le_nat_alt unat_div n)
  from dkgRunCmd_validation_words [of env config id' chainID out]
  show ?thesis unfolding a b c d n .
qed

text \<open>
  An accepted invocation (three cosigners, threshold 2), and a rejected one: the same
  configuration with shard ID 0.
\<close>

theorem dkgRunCmd_validation_witness:
  "length (Cosigners (rc_ThresholdModeConfig (sample_runtime [1, 2, 3] 2))) < 256
   \<and> snd (dkgRunCmd sample_dkg_env (sample_runtime [1, 2, 3] 2) 1 ''hub'' ''out'') \<noteq> []
   \<and> 1 \<le> unat (tm_Threshold (rc_ThresholdModeConfig (sample_runtime [1, 2, 3] 2)))
   \<and> length (Cosigners (rc_ThresholdModeConfig (sample_runtime [1, 2, 3] 2)))
        < 2 * unat (tm_Threshold (rc_ThresholdModeConfig (sample_runtime [1, 2, 3] 2)))
   \<and> fst (dkgRunCmd sample_dkg_env (sample_runtime [1, 2, 3] 2) 0 ''hub'' ''out'') \<noteq> None
   \<and> snd (dkgRunCmd sample_dkg_env (sample_runtime [1, 2, 3] 2) 0 ''hub'' ''out'') = []"
proof -
  have small: "length (Cosigners (rc_ThresholdModeConfig (sample_runtime [1, 2, 3] 2))) < 256"
    by (simp add: sample_runtime_def)
  have acc: "snd (dkgRunCmd sample_dkg_env (sample_runtime [1, 2, 3] 2) 1 ''hub'' ''out'') \<noteq> []"
    by (simp add: sample_dkg_run)
  have zero: "(0 :: 8 word) = 0" by simp
  from dkgRunCmd_validation [OF small, of sample_dkg_env 1 "''hub''" "''out''"]
    dkgRunCmd_validation [OF small, of sample_dkg_env 0 "''hub''" "''out''"]
    small acc zero
  show ?thesis by blast
qed

subsection \<open>\<open>dkg init\<close>: the DKG IDs\<close>

lemma dkgInit_loop_length: "length (dkgInit_loop id' p2pID cs) = length cs"
  by (induction cs) auto

lemma dkgInit_loop_nth:
  "i < length cs \<Longrightarrow>
     dkgInit_loop id' p2pID cs ! i =
       (if ShardID (cs ! i) = id' then (cs ! i)\<lparr>DKGID := p2pID\<rparr>
        else if DKGID (cs ! i) = [] then (cs ! i)\<lparr>DKGID := ''REPLACE ME''\<rparr>
        else cs ! i)"
proof (induction cs arbitrary: i)
  case Nil
  then show ?case by simp
next
  case (Cons c cs)
  then show ?case by (cases i) auto
qed

lemma dkgInitCmd_success:
  "dkgInitCmd env config id' = (None, config', tr) \<Longrightarrow>
     \<exists>privKey p2pID.
        crypto_GenerateEd25519Key env = Inr privKey \<and> peer_IDFromPrivateKey env privKey = Inr p2pID
      \<and> config' = config\<lparr>rc_ThresholdModeConfig :=
            (rc_ThresholdModeConfig config)\<lparr>Cosigners :=
               dkgInit_loop id' p2pID (Cosigners (rc_ThresholdModeConfig config))\<rparr>\<rparr>"
  by (auto simp: dkgInitCmd_def Let_def split: sum.splits option.splits)

lemma sample_dkg_init_run:
  "dkgInitCmd sample_dkg_env (sample_runtime [1, 2, 3] 2) 1 =
     (None,
      \<lparr>rc_HomeDir = ''/home/v/.horcrux'',
       rc_ThresholdModeConfig =
         \<lparr>tm_Threshold = 2,
          Cosigners =
            [(sample_cosigner 1)\<lparr>DKGID := ''12D3KooWn1''\<rparr>,
             sample_cosigner 2,
             (sample_cosigner 3)\<lparr>DKGID := ''REPLACE ME''\<rparr>]\<rparr>\<rparr>,
      [Op_WriteFile ''/home/v/.horcrux/libp2p.key'' [1, 2, 3] perm_0600,
       Op_WriteConfigFile,
       Op_Stdout (''libp2p key generated for DKG. `dkgID` to share with other members:''
                    @ [CHR 0x0A] @ ''12D3KooWn1'' @ [CHR 0x0A])])"
  by (simp add: dkgInitCmd_def dkg_eval)

text \<open>
  C10: after a run of \<open>dkg init\<close> with shard ID \<open>id'\<close> that returns no error, with
  \<open>p2pID\<close> the peer ID of the key just generated, the list of cosigners has its length
  and, at every position: a cosigner whose \<open>ShardID\<close> is \<open>id'\<close> has \<open>p2pID\<close> as its
  \<open>DKGID\<close>; another cosigner whose \<open>DKGID\<close> was empty has \<open>REPLACE ME\<close>; and another
  cosigner whose \<open>DKGID\<close> was not empty is unchanged. No other field of a cosigner
  changes.
\<close>

theorem dkgInitCmd_cosigners:
  "dkgInitCmd env config id' = (None, config', tr) \<Longrightarrow>
     \<exists>privKey p2pID.
        crypto_GenerateEd25519Key env = Inr privKey \<and> peer_IDFromPrivateKey env privKey = Inr p2pID
      \<and> length (Cosigners (rc_ThresholdModeConfig config'))
          = length (Cosigners (rc_ThresholdModeConfig config))
      \<and> (\<forall>i < length (Cosigners (rc_ThresholdModeConfig config)).
            Cosigners (rc_ThresholdModeConfig config') ! i =
              (let c = Cosigners (rc_ThresholdModeConfig config) ! i in
               if ShardID c = id' then c\<lparr>DKGID := p2pID\<rparr>
               else if DKGID c = [] then c\<lparr>DKGID := ''REPLACE ME''\<rparr>
               else c))"
proof -
  assume "dkgInitCmd env config id' = (None, config', tr)"
  from dkgInitCmd_success [OF this] obtain privKey p2pID where
    k: "crypto_GenerateEd25519Key env = Inr privKey" "peer_IDFromPrivateKey env privKey = Inr p2pID" and
    c: "config' = config\<lparr>rc_ThresholdModeConfig :=
            (rc_ThresholdModeConfig config)\<lparr>Cosigners :=
               dkgInit_loop id' p2pID (Cosigners (rc_ThresholdModeConfig config))\<rparr>\<rparr>"
    by blast
  from c have "Cosigners (rc_ThresholdModeConfig config')
      = dkgInit_loop id' p2pID (Cosigners (rc_ThresholdModeConfig config))"
    by simp
  with k show ?thesis
    by (auto simp: dkgInit_loop_length dkgInit_loop_nth Let_def)
qed

text \<open>
  Shard 1 of three: its own entry gets the new peer ID, shard 2 keeps the DKG ID it had,
  and shard 3, which had none, gets the placeholder.
\<close>

theorem dkgInitCmd_cosigners_witness:
  "fst (dkgInitCmd sample_dkg_env (sample_runtime [1, 2, 3] 2) 1) = None
   \<and> map DKGID (Cosigners (rc_ThresholdModeConfig (sample_runtime [1, 2, 3] 2)))
       = [[], ''12D3KooWn2'', []]
   \<and> map DKGID (Cosigners (rc_ThresholdModeConfig
          (fst (snd (dkgInitCmd sample_dkg_env (sample_runtime [1, 2, 3] 2) 1)))))
       = [''12D3KooWn1'', ''12D3KooWn2'', ''REPLACE ME'']"
proof -
  have a: "fst (dkgInitCmd sample_dkg_env (sample_runtime [1, 2, 3] 2) 1) = None"
    by (simp add: sample_dkg_init_run)
  have b: "map DKGID (Cosigners (rc_ThresholdModeConfig (sample_runtime [1, 2, 3] 2)))
       = [[], ''12D3KooWn2'', []]"
    by (simp add: sample_runtime_def sample_cosigner_def)
  have c: "map DKGID (Cosigners (rc_ThresholdModeConfig
          (fst (snd (dkgInitCmd sample_dkg_env (sample_runtime [1, 2, 3] 2) 1)))))
       = [''12D3KooWn1'', ''12D3KooWn2'', ''REPLACE ME'']"
    by (simp add: sample_dkg_init_run sample_cosigner_def)
  from dkgInitCmd_cosigners [OF sample_dkg_init_run] a b c show ?thesis by blast
qed

section \<open>Permission modes\<close>

lemma dkgRun_ceremony_modes:
  "(\<forall>p m. Op_MkdirAll p m \<in> set tr0 \<longrightarrow> m = perm_0700) \<Longrightarrow>
   (\<forall>p b m. Op_WriteFile p b m \<in> set tr0 \<longrightarrow> m = perm_0600) \<Longrightarrow>
   (\<forall>p m. Op_MkdirAll p m \<in> set (snd (dkgRun_ceremony env config id' chainID out tr0))
       \<longrightarrow> m = perm_0700)
   \<and> (\<forall>p b m. Op_WriteFile p b m \<in> set (snd (dkgRun_ceremony env config id' chainID out tr0))
       \<longrightarrow> m = perm_0600)"
  by (auto simp: dkgRun_ceremony_def Let_def split: sum.splits option.splits)

lemma dkgRunCmd_modes:
  "(\<forall>p m. Op_MkdirAll p m \<in> set (snd (dkgRunCmd env config id' chainID out)) \<longrightarrow> m = perm_0700)
   \<and> (\<forall>p b m. Op_WriteFile p b m \<in> set (snd (dkgRunCmd env config id' chainID out))
        \<longrightarrow> m = perm_0600)"
proof -
  have a: "\<forall>p m. Op_MkdirAll p m \<in> set [Op_MkdirAll out perm_0700] \<longrightarrow> m = perm_0700" by simp
  have b: "\<forall>p b m. Op_WriteFile p b m \<in> set [Op_MkdirAll out perm_0700] \<longrightarrow> m = perm_0600" by simp
  have c: "\<forall>p m. Op_MkdirAll p m \<in> set [] \<longrightarrow> m = perm_0700" by simp
  have d: "\<forall>p b m. Op_WriteFile p b m \<in> set [] \<longrightarrow> m = perm_0600" by simp
  show ?thesis
    using dkgRun_ceremony_modes [OF a b, of env config id' chainID out]
          dkgRun_ceremony_modes [OF c d, of env config id' chainID out]
    by (simp add: dkgRunCmd_def Let_def split: option.splits)
qed

lemma dkgInitCmd_modes:
  "\<forall>p b m. Op_WriteFile p b m \<in> set (snd (snd (dkgInitCmd env config id'))) \<longrightarrow> m = perm_0600"
  by (auto simp: dkgInitCmd_def Let_def split: sum.splits option.splits)

text \<open>
  C3 as stated, "every directory the program creates for persisted state is created
  with mode 0700", fails: \<open>config init\<close> creates the state directory with mode 0755.
\<close>

theorem state_directory_mode_counterexample:
  "initCmd sample_cfg_env sample_single_init =
     (None, [Op_MkdirAll ''/home/v/.horcrux/state'' perm_0755,
             Op_WriteFile ''/home/v/.horcrux/config.yaml'' [] perm_0644,
             Op_LoadOrCreateSignState ''/home/v/.horcrux/state/hub_priv_validator_state.json''])
   \<and> perm_0755 \<noteq> perm_0700"
  by (simp add: sample_single_init_run) (simp add: perm_0755_def perm_0700_def)

text \<open>
  C3, amended: \<open>config init\<close> creates its directories (the state directory and those
  above it) with mode 0755 and writes the config file with mode 0644; \<open>dkg run\<close>
  creates its output directory with mode 0700; and every key file written by \<open>dkg
  init\<close> (the libp2p key) and by \<open>dkg run\<close> (the shard) is written with mode 0600.
\<close>

theorem permission_modes:
  "(\<forall>p m. Op_MkdirAll p m \<in> set (snd (initCmd cenv inp)) \<longrightarrow> m = perm_0755)
   \<and> (\<forall>p b m. Op_WriteFile p b m \<in> set (snd (initCmd cenv inp)) \<longrightarrow> m = perm_0644)
   \<and> (\<forall>p m. Op_MkdirAll p m \<in> set (snd (dkgRunCmd denv config id' chainID out))
        \<longrightarrow> m = perm_0700)
   \<and> (\<forall>p b m. Op_WriteFile p b m \<in> set (snd (dkgRunCmd denv config id' chainID out))
        \<longrightarrow> m = perm_0600)
   \<and> (\<forall>p b m. Op_WriteFile p b m \<in> set (snd (snd (dkgInitCmd denv config id')))
        \<longrightarrow> m = perm_0600)"
  using initCmd_modes [of cenv inp] dkgRunCmd_modes [of denv config id' chainID out]
        dkgInitCmd_modes [of denv config id']
  by blast

text \<open>
  The three commands on the sample inputs: each makes the calls the theorem speaks of,
  with the modes it gives.
\<close>

theorem permission_modes_witness:
  "Op_MkdirAll ''/home/v/.horcrux/state'' (7 * 64 + 5 * 8 + 5)
      \<in> set (snd (initCmd sample_cfg_env sample_cosigner_init))
   \<and> (7 * 64 + 5 * 8 + 5 :: nat) = perm_0755
   \<and> Op_MkdirAll ''out'' (7 * 64)
      \<in> set (snd (dkgRunCmd sample_dkg_env (sample_runtime [1, 2, 3] 2) 1 ''hub'' ''out''))
   \<and> (7 * 64 :: nat) = perm_0700
   \<and> Op_WriteFile ''out/hub_shard.json'' [7] (6 * 64)
      \<in> set (snd (dkgRunCmd sample_dkg_env (sample_runtime [1, 2, 3] 2) 1 ''hub'' ''out''))
   \<and> Op_WriteFile ''/home/v/.horcrux/libp2p.key'' [1, 2, 3] (6 * 64)
      \<in> set (snd (snd (dkgInitCmd sample_dkg_env (sample_runtime [1, 2, 3] 2) 1)))
   \<and> (6 * 64 :: nat) = perm_0600"
proof -
  have a: "Op_MkdirAll ''/home/v/.horcrux/state'' (7 * 64 + 5 * 8 + 5)
      \<in> set (snd (initCmd sample_cfg_env sample_cosigner_init))"
    by (simp add: sample_cosigner_init_run perm_0755_def)
  have b: "Op_MkdirAll ''out'' (7 * 64)
      \<in> set (snd (dkgRunCmd sample_dkg_env (sample_runtime [1, 2, 3] 2) 1 ''hub'' ''out''))"
    by (simp add: sample_dkg_run perm_0700_def)
  have c: "Op_WriteFile ''out/hub_shard.json'' [7] (6 * 64)
      \<in> set (snd (dkgRunCmd sample_dkg_env (sample_runtime [1, 2, 3] 2) 1 ''hub'' ''out''))"
    by (simp add: sample_dkg_run perm_0600_def)
  have d: "Op_WriteFile ''/home/v/.horcrux/libp2p.key'' [1, 2, 3] (6 * 64)
      \<in> set (snd (snd (dkgInitCmd sample_dkg_env (sample_runtime [1, 2, 3] 2) 1)))"
    by (simp add: sample_dkg_init_run perm_0600_def)
  from permission_modes [of sample_cfg_env sample_cosigner_init sample_dkg_env
      "sample_runtime [1, 2, 3] 2" 1 "''hub''" "''out''"] a b c d
  show ?thesis by blast
qed

section \<open>Properties of the gRPC server\<close>

subsection \<open>\<open>TransferLeadership\<close>\<close>

lemma fmt_d_digits: "fmt_d 1 = ''1''" "fmt_d 2 = ''2''" "fmt_d 3 = ''3''"
  by (simp_all add: fmt_d_def fmt_nat.simps digit_char_def)

lemma TransferLeadership_loop_find:
  "TransferLeadership_loop f leaderID cs =
     (case find (\<lambda>c. fmt_d (GetID c) = leaderID) cs of
        None \<Rightarrow> None
      | Some c \<Rightarrow>
          Some (\<lparr>LeaderID = leaderID, LeaderAddress = f (GetAddress c)\<rparr>,
                [Op_Stdout (''Transferring leadership to ID: '' @ leaderID @ '' - Address: ''
                   @ f (GetAddress c) @ [CHR 0x0A]),
                 Op_LeadershipTransferToServer leaderID (f (GetAddress c))]))"
  by (induction cs) (auto simp: Let_def)

text \<open>
  C5 as stated, "for every request the response carries the leaderID and leaderAddress
  of the cosigner to which leadership is transferred", fails: a leader asked without a
  leaderID transfers leadership to the next candidate and answers with both fields
  empty.
\<close>

theorem TransferLeadership_empty_response_counterexample:
  "GRPCServer_TransferLeadership sample_raft_address Leader sample_cosigners [] =
     (\<lparr>LeaderID = [], LeaderAddress = []\<rparr>,
      [Op_Stdout (''Transferring leadership to next candidate'' @ [CHR 0x0A]),
       Op_LeadershipTransfer])"
  by (simp add: GRPCServer_TransferLeadership_def empty_response_def)

text \<open>
  C5, amended: when the node is the raft leader and the request names a leaderID that is
  the decimal ID of a configured cosigner, leadership is transferred to the first such
  cosigner and the response carries that leaderID and the raft address of that cosigner.
  In every other case the response carries an empty leaderID and leaderAddress: a leader
  then transfers leadership to the next candidate, and a node that is not the leader does
  nothing.
\<close>

theorem TransferLeadership_response:
  "(raft_State = Leader \<and> leaderID \<noteq> [] \<and> find (\<lambda>c. fmt_d (GetID c) = leaderID) cs = Some c \<longrightarrow>
      GRPCServer_TransferLeadership f raft_State cs leaderID =
        (\<lparr>LeaderID = leaderID, LeaderAddress = f (GetAddress c)\<rparr>,
         [Op_Stdout (''Transferring leadership to ID: '' @ leaderID @ '' - Address: ''
                   @ f (GetAddress c) @ [CHR 0x0A]),
          Op_LeadershipTransferToServer leaderID (f (GetAddress c))]))
   \<and> (raft_State = Leader \<and> (leaderID = [] \<or> find (\<lambda>c. fmt_d (GetID c) = leaderID) cs = None) \<longrightarrow>
      GRPCServer_TransferLeadership f raft_State cs leaderID =
        (empty_response,
         [Op_Stdout (''Transferring leadership to next candidate'' @ [CHR 0x0A]),
          Op_LeadershipTransfer]))
   \<and> (raft_State \<noteq> Leader \<longrightarrow>
      GRPCServer_TransferLeadership f raft_State cs leaderID = (empty_response, []))"
  by (auto simp: GRPCServer_TransferLeadership_def TransferLeadership_loop_find)

text \<open>The leader is asked to hand over to cosigner 2; a follower is asked the same.\<close>

theorem TransferLeadership_response_witness:
  "find (\<lambda>c. fmt_d (GetID c) = ''2'') sample_cosigners = Some \<lparr>GetID = 2, GetAddress = ''tcp://n2:2222''\<rparr>
   \<and> GRPCServer_TransferLeadership sample_raft_address Leader sample_cosigners ''2'' =
       (\<lparr>LeaderID = ''2'', LeaderAddress = ''n2:2222''\<rparr>,
        [Op_Stdout (''Transferring leadership to ID: 2 - Address: n2:2222'' @ [CHR 0x0A]),
         Op_LeadershipTransferToServer ''2'' ''n2:2222''])
   \<and> GRPCServer_TransferLeadership sample_raft_address Follower sample_cosigners ''2'' =
       (\<lparr>LeaderID = [], LeaderAddress = []\<rparr>, [])"
proof -
  have f: "find (\<lambda>c. fmt_d (GetID c) = ''2'') sample_cosigners
             = Some \<lparr>GetID = 2, GetAddress = ''tcp://n2:2222''\<rparr>"
    by (simp add: sample_cosigners_def fmt_d_digits)
  have l: "Leader = Leader \<and> ''2'' \<noteq> []" by simp
  have n: "Follower \<noteq> Leader" by simp
  from TransferLeadership_response [of Leader "''2''" sample_cosigners
        "\<lparr>GetID = 2, GetAddress = ''tcp://n2:2222''\<rparr>" sample_raft_address]
      TransferLeadership_response [of Follower "''2''" sample_cosigners
        "\<lparr>GetID = 2, GetAddress = ''tcp://n2:2222''\<rparr>" sample_raft_address]
      f l n
  show ?thesis by (simp add: sample_raft_address_def empty_response_def)
qed

subsection \<open>\<open>SetNoncesAndSign\<close>\<close>

lemma sint_of_int_64:
  "- (2 ^ 63) \<le> n \<Longrightarrow> n < 2 ^ 63 \<Longrightarrow> sint (word_of_int n :: 64 word) = n"
  by (simp add: sint_sbintrunc' signed_take_bit_int_eq_self)

lemma sint_UnixNano:
  "- (2 ^ 63) \<le> t_sec t * 1000000000 + t_nsec t \<Longrightarrow> t_sec t * 1000000000 + t_nsec t < 2 ^ 63
     \<Longrightarrow> sint (UnixNano t) = t_sec t * 1000000000 + t_nsec t"
  unfolding UnixNano_def
  by (rule sint_of_int_64)

text \<open>
  For a request that carries its \<open>hrst\<close> the handler does what C6 says: when
  \<open>LocalCosigner.SetNoncesAndSign\<close> (here \<open>sign\<close>), called with the converted request,
  succeeds with \<open>res\<close>, it returns the response made of the signature of \<open>res\<close> and of
  \<open>UnixNano\<close> of its timestamp, which is the count of nanoseconds since the epoch
  whenever that count fits an \<open>int64\<close>; when it fails with \<open>err\<close>, it returns \<open>err\<close>
  and no response.
\<close>

lemma SetNoncesAndSign_with_hrst:
  "snr_Hrst req = Some h \<Longrightarrow>
   (sign st
       \<lparr>csr_ChainID = snr_ChainID req,
        csr_EncryptedSecrets = noncesFromProto (snr_EncryptedSecrets req),
        csr_HRST = keyFromProto (snr_Hrst req),
        csr_SignBytes = snr_SignBytes req\<rparr> = (Inr res, st') \<longrightarrow>
      fst (GRPCServer_SetNoncesAndSign sign noncesFromProto keyFromProto st req)
        = Inr \<lparr>rsp_Timestamp = UnixNano (res_Timestamp res), rsp_Signature = res_Signature res\<rparr>
      \<and> (- (2 ^ 63) \<le> t_sec (res_Timestamp res) * 1000000000 + t_nsec (res_Timestamp res)
           \<and> t_sec (res_Timestamp res) * 1000000000 + t_nsec (res_Timestamp res) < 2 ^ 63
         \<longrightarrow> sint (UnixNano (res_Timestamp res))
               = t_sec (res_Timestamp res) * 1000000000 + t_nsec (res_Timestamp res)))
   \<and> (sign st
       \<lparr>csr_ChainID = snr_ChainID req,
        csr_EncryptedSecrets = noncesFromProto (snr_EncryptedSecrets req),
        csr_HRST = keyFromProto (snr_Hrst req),
        csr_SignBytes = snr_SignBytes req\<rparr> = (Inl err, st') \<longrightarrow>
      fst (GRPCServer_SetNoncesAndSign sign noncesFromProto keyFromProto st req)
        = Inl err)"
  by (simp add: GRPCServer_SetNoncesAndSign_def sint_UnixNano)

lemma sample_sign_with_hrst:
  "fst (GRPCServer_SetNoncesAndSign sample_sign (\<lambda>x. x) (\<lambda>x. x) ()
          (sample_sign_request ''hub'' (Some sample_hrst)))
     = Inr \<lparr>rsp_Timestamp = 1700000000000000005, rsp_Signature = [9, 8, 7]\<rparr>
   \<and> fst (GRPCServer_SetNoncesAndSign sample_sign (\<lambda>x. x) (\<lambda>x. x) ()
          (sample_sign_request ''bad'' (Some sample_hrst)))
     = Inl (Errorf ''no key for chain'')"
  by (simp add: GRPCServer_SetNoncesAndSign_def sample_sign_def sample_sign_request_def
      time_Unix_def UnixNano_def)

text \<open>
  For a request without \<open>hrst\<close> the handler panics after the call of the cosigner,
  whatever the cosigner returned.
\<close>

lemma SetNoncesAndSign_nil_hrst:
  "snr_Hrst req = None \<Longrightarrow>
     fst (GRPCServer_SetNoncesAndSign sign noncesFromProto keyFromProto st req) = Inl nil_dereference"
  by (simp add: GRPCServer_SetNoncesAndSign_def split: prod.splits sum.splits)

text \<open>
  C6, "for every request: if \<open>LocalCosigner.SetNoncesAndSign\<close> succeeds the response
  contains its signature and its timestamp; if it fails the RPC returns that error", does
  not hold of the code for a request without \<open>hrst\<close>. The sample cosigner signs the
  request of the chain \<open>hub\<close> and refuses that of the chain \<open>bad\<close>; for both the
  handler ends in the panic of the \<open>nil\<close> dereference and returns neither the response
  nor the error.
\<close>

theorem SetNoncesAndSign_without_hrst_panics:
  "fst (sample_sign ()
       \<lparr>csr_ChainID = ''hub'', csr_EncryptedSecrets = [[1], [2]], csr_HRST = None,
        csr_SignBytes = [97, 98, 99]\<rparr>)
     = Inr \<lparr>res_Timestamp = \<lparr>t_sec = 1700000000, t_nsec = 5\<rparr>, res_Signature = [9, 8, 7]\<rparr>
   \<and> fst (GRPCServer_SetNoncesAndSign sample_sign (\<lambda>x. x) (\<lambda>x. x) ()
            (sample_sign_request ''hub'' None))
     = Inl (Panic ''runtime error: invalid memory address or nil pointer dereference'')
   \<and> fst (sample_sign ()
       \<lparr>csr_ChainID = ''bad'', csr_EncryptedSecrets = [[1], [2]], csr_HRST = None,
        csr_SignBytes = [97, 98, 99]\<rparr>)
     = Inl (Errorf ''no key for chain'')
   \<and> fst (GRPCServer_SetNoncesAndSign sample_sign (\<lambda>x. x) (\<lambda>x. x) ()
            (sample_sign_request ''bad'' None))
     = Inl (Panic ''runtime error: invalid memory address or nil pointer dereference'')"
  by (simp add: GRPCServer_SetNoncesAndSign_def sample_sign_def sample_sign_request_def
      time_Unix_def nil_dereference_def)

section \<open>Properties over the collaborators modelled from the spec\<close>

subsection \<open>The Double-Sign Invariant\<close>

lemma hrs_less_irrefl: "\<not> hrs_less a a"
  by (cases a) (auto simp: hrs_less_def)

lemma hrs_less_trans: "hrs_less a b \<Longrightarrow> hrs_less b c \<Longrightarrow> hrs_less a c"
  by (cases a; cases b; cases c) (auto simp: hrs_less_def)

lemma hrs_less_asym: "hrs_less a b \<Longrightarrow> \<not> hrs_less b a"
  using hrs_less_trans hrs_less_irrefl by blast

lemma hrs_le_refl: "hrs_le a a"
  by (simp add: hrs_le_def)

lemma hrs_le_trans: "hrs_le a b \<Longrightarrow> hrs_le b c \<Longrightarrow> hrs_le a c"
  unfolding hrs_le_def using hrs_less_trans by blast

lemma hrs_le_antisym: "hrs_le a b \<Longrightarrow> hrs_le b a \<Longrightarrow> a = b"
  unfolding hrs_le_def using hrs_less_asym by blast

text \<open>One request: what the store and the answer can be.\<close>

lemma SignBlock_cases:
  assumes "GRPCServer_SignBlock (ThresholdValidator_SignBlock w) store req = (r, store')"
  shows "(store' = store \<and>
            (\<forall>rsp. r = Inr rsp \<longrightarrow>
               ss_HRS (store (sbr_ChainID req)) = block_HRS (GRPCServer_Block req)
               \<and> ss_SignBytes (store (sbr_ChainID req)) = SignBytes (GRPCServer_Block req)))
         \<or> ((\<exists>rsp. r = Inr rsp)
            \<and> hrs_less (ss_HRS (store (sbr_ChainID req))) (block_HRS (GRPCServer_Block req))
            \<and> (\<exists>st. store' = store(sbr_ChainID req := st)
                  \<and> ss_HRS st = block_HRS (GRPCServer_Block req)
                  \<and> ss_SignBytes st = SignBytes (GRPCServer_Block req)))"
  using assms
  by (auto simp: GRPCServer_SignBlock_def ThresholdValidator_SignBlock_def CheckAndAdvance_def
      Commit_def split: if_splits sum.splits decision.splits prod.splits)

lemma SignBlock_store_mono:
  assumes "GRPCServer_SignBlock (ThresholdValidator_SignBlock w) store req = (r, store')"
  shows "store' c = store c \<or> hrs_less (ss_HRS (store c)) (ss_HRS (store' c))"
  using SignBlock_cases [OF assms] by (cases "c = sbr_ChainID req") auto

lemma SignBlock_signed_state:
  assumes "GRPCServer_SignBlock (ThresholdValidator_SignBlock w) store req = (Inr rsp, store')"
  shows "ss_HRS (store' (sbr_ChainID req)) = block_HRS (GRPCServer_Block req)
       \<and> ss_SignBytes (store' (sbr_ChainID req)) = SignBytes (GRPCServer_Block req)"
  using SignBlock_cases [OF assms] by auto

lemma serve_store_mono:
  "hrs_le (ss_HRS (store c)) (ss_HRS (snd (serve store reqs) c))"
proof (induction reqs arbitrary: store)
  case Nil
  show ?case by (simp add: hrs_le_refl)
next
  case (Cons a reqs)
  obtain w req where a: "a = (w, req)" by (cases a)
  obtain r store' where
    step: "GRPCServer_SignBlock (ThresholdValidator_SignBlock w) store req = (r, store')"
    by (cases "GRPCServer_SignBlock (ThresholdValidator_SignBlock w) store req")
  from SignBlock_store_mono [OF step, of c]
  have "hrs_le (ss_HRS (store c)) (ss_HRS (store' c))"
    by (auto simp: hrs_le_def)
  moreover have "hrs_le (ss_HRS (store' c)) (ss_HRS (snd (serve store' reqs) c))"
    by (rule Cons.IH)
  moreover have "snd (serve store (a # reqs)) = snd (serve store' reqs)"
    by (simp add: a step split: prod.splits)
  ultimately show ?case using hrs_le_trans by metis
qed

text \<open>Whatever is signed later is at or above the stored state; at it, the payload is the stored one.\<close>

lemma signed_above_store:
  "(c, h, b) \<in> set (signed store reqs) \<Longrightarrow>
     hrs_le (ss_HRS (store c)) h \<and> (h = ss_HRS (store c) \<longrightarrow> b = ss_SignBytes (store c))"
proof (induction reqs arbitrary: store)
  case Nil
  then show ?case by simp
next
  case (Cons a reqs)
  obtain w req where a: "a = (w, req)" by (cases a)
  obtain r store' where
    step: "GRPCServer_SignBlock (ThresholdValidator_SignBlock w) store req = (r, store')"
    by (cases "GRPCServer_SignBlock (ThresholdValidator_SignBlock w) store req")
  note mono = SignBlock_store_mono [OF step, of c]
  have tail: "hrs_le (ss_HRS (store c)) h \<and> (h = ss_HRS (store c) \<longrightarrow> b = ss_SignBytes (store c))"
    if mem: "(c, h, b) \<in> set (signed store' reqs)"
  proof -
    from Cons.IH [OF mem]
    have ih: "hrs_le (ss_HRS (store' c)) h" "h = ss_HRS (store' c) \<longrightarrow> b = ss_SignBytes (store' c)"
      by auto
    from mono show ?thesis
    proof
      assume "store' c = store c"
      with ih show ?thesis by simp
    next
      assume less: "hrs_less (ss_HRS (store c)) (ss_HRS (store' c))"
      with ih(1) have "hrs_less (ss_HRS (store c)) h"
        unfolding hrs_le_def by (metis hrs_less_trans)
      then show ?thesis
        by (metis hrs_le_def hrs_less_irrefl)
    qed
  qed
  show ?case
  proof (cases r)
    case (Inl err)
    with Cons.prems a step have "(c, h, b) \<in> set (signed store' reqs)" by simp
    then show ?thesis by (rule tail)
  next
    case (Inr rsp)
    with Cons.prems a step
    have "(c, h, b) = (sbr_ChainID req, block_HRS (GRPCServer_Block req), SignBytes (GRPCServer_Block req))
          \<or> (c, h, b) \<in> set (signed store' reqs)"
      by simp
    then show ?thesis
    proof
      assume "(c, h, b) \<in> set (signed store' reqs)"
      then show ?thesis by (rule tail)
    next
      assume "(c, h, b) = (sbr_ChainID req, block_HRS (GRPCServer_Block req), SignBytes (GRPCServer_Block req))"
      then have e: "c = sbr_ChainID req" "h = block_HRS (GRPCServer_Block req)"
        "b = SignBytes (GRPCServer_Block req)" by simp_all
      from SignBlock_cases [OF step] show ?thesis
      proof
        assume "store' = store \<and>
            (\<forall>rsp. r = Inr rsp \<longrightarrow>
               ss_HRS (store (sbr_ChainID req)) = block_HRS (GRPCServer_Block req)
               \<and> ss_SignBytes (store (sbr_ChainID req)) = SignBytes (GRPCServer_Block req))"
        with Inr e show ?thesis by (simp add: hrs_le_refl)
      next
        assume "(\<exists>rsp. r = Inr rsp)
            \<and> hrs_less (ss_HRS (store (sbr_ChainID req))) (block_HRS (GRPCServer_Block req))
            \<and> (\<exists>st. store' = store(sbr_ChainID req := st)
                  \<and> ss_HRS st = block_HRS (GRPCServer_Block req)
                  \<and> ss_SignBytes st = SignBytes (GRPCServer_Block req))"
        then have "hrs_less (ss_HRS (store c)) h" using e by simp
        then show ?thesis by (metis hrs_le_def hrs_less_irrefl)
      qed
    qed
  qed
qed

lemma signed_sorted:
  "sorted_wrt (\<lambda>e e'. fst e' = fst e \<and> hrs_le (fst (snd e')) (fst (snd e))
                 \<longrightarrow> snd (snd e') = snd (snd e) \<and> fst (snd e') = fst (snd e))
     (signed store reqs)"
proof (induction reqs arbitrary: store)
  case Nil
  show ?case by simp
next
  case (Cons a reqs)
  obtain w req where a: "a = (w, req)" by (cases a)
  obtain r store' where
    step: "GRPCServer_SignBlock (ThresholdValidator_SignBlock w) store req = (r, store')"
    by (cases "GRPCServer_SignBlock (ThresholdValidator_SignBlock w) store req")
  show ?case
  proof (cases r)
    case (Inl err)
    with a step Cons.IH [of store'] show ?thesis by simp
  next
    case (Inr rsp)
    from SignBlock_signed_state [OF step [unfolded Inr]]
    have st: "ss_HRS (store' (sbr_ChainID req)) = block_HRS (GRPCServer_Block req)"
      "ss_SignBytes (store' (sbr_ChainID req)) = SignBytes (GRPCServer_Block req)"
      by auto
    have "snd (snd e') = SignBytes (GRPCServer_Block req) \<and> fst (snd e') = block_HRS (GRPCServer_Block req)"
      if mem: "e' \<in> set (signed store' reqs)" and c: "fst e' = sbr_ChainID req"
        and le: "hrs_le (fst (snd e')) (block_HRS (GRPCServer_Block req))" for e'
    proof -
      obtain c' h' b' where e': "e' = (c', h', b')" by (cases e')
      from signed_above_store [of c' h' b' store' reqs] mem e' c st
      have "hrs_le (block_HRS (GRPCServer_Block req)) h'"
        "h' = block_HRS (GRPCServer_Block req) \<longrightarrow> b' = SignBytes (GRPCServer_Block req)"
        by auto
      moreover from le e' have "hrs_le h' (block_HRS (GRPCServer_Block req))" by simp
      ultimately show ?thesis using hrs_le_antisym e' by auto
    qed
    with a step Inr Cons.IH [of store'] show ?thesis by auto
  qed
qed

lemmas tv_eval = GRPCServer_SignBlock_def ThresholdValidator_SignBlock_def CheckAndAdvance_def
  Commit_def GRPCServer_Block_def block_HRS_def hrs_less_def GetHeight_def GetRound_def
  GetStep_def GetSignBytes_def GetTimestamp_def time_Unix_def fresh_store_def good_world_def
  block_request_def scenario_def

lemma scenario_signed:
  "signed fresh_store scenario =
     [(''hub'', (100, 0, 2), [97, 98, 99]),
      (''hub'', (100, 0, 2), [97, 98, 99]),
      (''hub'', (100, 0, 3), [120, 121, 122])]"
  by (simp add: tv_eval)

lemma scenario_served:
  "fst (serve fresh_store scenario) =
     [Inr \<lparr>sbr_Signature = [1]\<rparr>, Inr \<lparr>sbr_Signature = [1]\<rparr>, Inl DoubleSignError,
      Inr \<lparr>sbr_Signature = [4]\<rparr>, Inl DoubleSignError]
   \<and> ss_HRS (snd (serve fresh_store scenario) ''hub'') = (100, 0, 3)"
  by (simp add: tv_eval)

text \<open>
  C1: for every chain and every sequence of \<open>SignBlock\<close> requests served from any
  store, the stored (H, R, S) of the chain after the sequence is at or above the one
  before it (and so after every request of it); and among the requests answered with a
  signature, a later one whose (H', R', S') is at or below the (H, R, S) of an earlier one
  of the same chain has the same (H, R, S) and the same signBytes. The (H, R, S) of a
  request is that of the block the handler builds from it.
\<close>

theorem no_double_sign:
  "(\<forall>c. hrs_le (ss_HRS (store c)) (ss_HRS (snd (serve store reqs) c)))
   \<and> (\<forall>i j c h b h' b'.
        i < j \<and> j < length (signed store reqs)
        \<and> signed store reqs ! i = (c, h, b) \<and> signed store reqs ! j = (c, h', b')
        \<and> hrs_le h' h
        \<longrightarrow> b' = b \<and> h' = h)"
proof -
  have "b' = b \<and> h' = h"
    if "i < j" "j < length (signed store reqs)"
      "signed store reqs ! i = (c, h, b)" "signed store reqs ! j = (c, h', b')" "hrs_le h' h"
    for i j c h b h' b'
    using sorted_wrt_nth_less [OF signed_sorted [of store reqs] that(1) that(2)] that(3-5)
    by simp
  then show ?thesis using serve_store_mono by blast
qed


text \<open>
  The scenarios of the spec in a row: sign at (100, 0, 2), replay it, refuse another
  payload there, advance to (100, 0, 3), refuse (100, 0, 2) again.
\<close>

theorem no_double_sign_witness:
  "signed fresh_store scenario =
     [(''hub'', (100, 0, 2), [97, 98, 99]),
      (''hub'', (100, 0, 2), [97, 98, 99]),
      (''hub'', (100, 0, 3), [120, 121, 122])]
   \<and> fst (serve fresh_store scenario) =
     [Inr \<lparr>sbr_Signature = [1]\<rparr>, Inr \<lparr>sbr_Signature = [1]\<rparr>, Inl DoubleSignError,
      Inr \<lparr>sbr_Signature = [4]\<rparr>, Inl DoubleSignError]
   \<and> ss_HRS (snd (serve fresh_store scenario) ''hub'') = (100, 0, 3)
   \<and> hrs_le (100, 0, 2) (100, 0, 2)
   \<and> hrs_le (ss_HRS (fresh_store ''hub'')) (ss_HRS (snd (serve fresh_store scenario) ''hub''))"
proof -
  have le: "hrs_le (100, 0, 2) (100, 0, 2)" by (simp add: hrs_le_def)
  from no_double_sign [of fresh_store scenario] scenario_signed scenario_served le
  show ?thesis by blast
qed

subsection \<open>Repeated \<open>GetNonces\<close>\<close>

lemma length_nonce_calls: "length (nonce_calls toProto cache calls) = length calls"
  by (induction calls arbitrary: cache) (auto split: prod.splits)









end
